theory Spec2Isabelle
  imports Main "HOL-Library.Word"
begin

section \<open>Strings, buffers and numbers as the source uses them\<close>

text \<open>
  The numbers the camera code computes with are integers (ports, widths, rates,
  counters) and are modelled as integers, except the retry delay of the event
  subscription, which doubles without bound and is modelled as the double it is.
  A \<^verbatim>\<open>Buffer\<close> is a list of bytes.
\<close>

type_synonym buffer = "8 word list"

text \<open>Template literals render a number in decimal.\<close>

definition digit_char :: "nat \<Rightarrow> char" where
  "digit_char d = ''0123456789'' ! (d mod 10)"

fun str_of_nat :: "nat \<Rightarrow> string" where
  "str_of_nat n = (if n < 10 then [digit_char n] else str_of_nat (n div 10) @ [digit_char n])"

declare str_of_nat.simps [simp del]

definition str_of_int :: "int \<Rightarrow> string" where
  "str_of_int i = (if i < 0 then CHR ''-'' # str_of_nat (nat (- i)) else str_of_nat (nat i))"

text \<open>A template literal over a value that may be \<^verbatim>\<open>undefined\<close>.\<close>

definition tpl_string :: "string option \<Rightarrow> string" where
  "tpl_string x = (case x of None \<Rightarrow> ''undefined'' | Some s \<Rightarrow> s)"

definition tpl_number :: "int option \<Rightarrow> string" where
  "tpl_number x = (case x of None \<Rightarrow> ''undefined'' | Some n \<Rightarrow> str_of_int n)"

text \<open>Truthiness of a string that may be undefined: the empty string is falsy.\<close>

definition truthy_string :: "string option \<Rightarrow> bool" where
  "truthy_string x = (case x of None \<Rightarrow> False | Some s \<Rightarrow> s \<noteq> [])"

text \<open>\<^verbatim>\<open>s.replace(pat, rep)\<close> with a string pattern replaces the first occurrence only.\<close>

fun replace_first :: "string \<Rightarrow> string \<Rightarrow> string \<Rightarrow> string" where
  "replace_first pat rep [] = (if pat = [] then rep else [])"
| "replace_first pat rep (c # cs) =
     (if take (length pat) (c # cs) = pat then rep @ drop (length pat) (c # cs)
      else c # replace_first pat rep cs)"

text \<open>\<^verbatim>\<open>s.split(sep)\<close> with a one-character separator.\<close>

fun split_on :: "char \<Rightarrow> string \<Rightarrow> string list" where
  "split_on sep [] = [[]]"
| "split_on sep (c # cs) =
     (if c = sep then [] # split_on sep cs
      else (case split_on sep cs of [] \<Rightarrow> [[c]] | w # ws \<Rightarrow> (c # w) # ws))"

text \<open>\<^verbatim>\<open>s.trim()\<close>, for the ASCII white space characters.\<close>

definition is_space :: "char \<Rightarrow> bool" where
  "is_space c = (c = CHR '' '' \<or> c = CHR 0x09 \<or> c = CHR 0x0A \<or> c = CHR 0x0B
                 \<or> c = CHR 0x0C \<or> c = CHR 0x0D)"

definition js_trim :: "string \<Rightarrow> string" where
  "js_trim s = rev (dropWhile is_space (rev (dropWhile is_space s)))"

text \<open>\<^verbatim>\<open>buf.toString('base64')\<close>\<close>

definition b64_char :: "nat \<Rightarrow> char" where
  "b64_char n =
     ''ABCDEFGHIJKLMNOPQRSTUVWXYZabcdefghijklmnopqrstuvwxyz0123456789+/'' ! (n mod 64)"

fun base64 :: "buffer \<Rightarrow> string" where
  "base64 [] = []"
| "base64 [a] =
     (let x = unat a in [b64_char (x div 4), b64_char ((x mod 4) * 16), CHR ''='', CHR ''=''])"
| "base64 [a, b] =
     (let x = unat a; y = unat b in
      [b64_char (x div 4), b64_char ((x mod 4) * 16 + y div 16), b64_char ((y mod 16) * 4),
       CHR ''=''])"
| "base64 (a # b # c # rest) =
     (let x = unat a; y = unat b; z = unat c in
      [b64_char (x div 4), b64_char ((x mod 4) * 16 + y div 16),
       b64_char ((y mod 16) * 4 + z div 64), b64_char (z mod 64)] @ base64 rest)"

section \<open>JavaScript values and transcoder argument groups\<close>

text \<open>
  The values that occur inside the argument arrays of \<^verbatim>\<open>handleStreamRequest\<close>: strings,
  numbers (frame rate, payload type, SSRC), and whatever a user's override map holds
  (in particular the boolean \<^verbatim>\<open>false\<close>, the removal marker), or \<^verbatim>\<open>undefined\<close>. The code
  looks inside a value only to compare it with \<^verbatim>\<open>false\<close> and to trim it when it is a
  string.
\<close>

datatype jsval = JUndefined | JNull | JBool bool | JNum int | JStr string

text \<open>
  An argument is a JavaScript array such as \<^verbatim>\<open>['-re']\<close>, \<^verbatim>\<open>['-r', fps]\<close> or
  \<^verbatim>\<open>[key, options[key]]\<close>. Every array the source builds has a string at index 0 (a
  literal flag or a property name of the override object) and index 0 is never written
  afterwards, so an argument is the flag together with the elements from index 1 on.
\<close>

type_synonym arg = "string \<times> jsval list"

text \<open>\<^verbatim>\<open>args.find(arg => arg[0] === key)\<close>: the first argument carrying the flag.\<close>

definition find_arg :: "string \<Rightarrow> arg list \<Rightarrow> arg option" where
  "find_arg key args = find (\<lambda>a. fst a = key) args"

text \<open>\<^verbatim>\<open>existingArg[1] = v\<close>: writing index 1 of a one-element array extends it.\<close>

fun set_index1 :: "jsval \<Rightarrow> arg \<Rightarrow> arg" where
  "set_index1 v (k, []) = (k, [v])"
| "set_index1 v (k, _ # rest) = (k, v # rest)"

text \<open>
  The array found by \<^verbatim>\<open>find\<close> is shared with the group, so the assignment changes the
  first argument of the group that carries the flag, in place.
\<close>

fun assign_first :: "string \<Rightarrow> jsval \<Rightarrow> arg list \<Rightarrow> arg list" where
  "assign_first key v [] = []"
| "assign_first key v (a # as) =
     (if fst a = key then set_index1 v a # as else a # assign_first key v as)"

text \<open>\<^verbatim>\<open>args.filter(arg => arg[0] !== key)\<close>\<close>

definition drop_flag :: "string \<Rightarrow> arg list \<Rightarrow> arg list" where
  "drop_flag key args = filter (\<lambda>a. fst a \<noteq> key) args"

section \<open>Merging an override map into an argument group\<close>

text \<open>
  An override object is iterated with \<^verbatim>\<open>for (let key in options)\<close>; it is modelled as the
  list of its (key, value) properties in iteration order.

  One iteration of the loop body for the video and audio groups (lines 471-483 and
  489-501): a present flag is removed when the value is exactly \<^verbatim>\<open>false\<close> and gets the
  value at index 1 otherwise; an absent flag is pushed at the end with its value,
  whatever the value is.
\<close>

type_synonym override_map = "(string \<times> jsval) list"

definition merge_entry_push :: "string \<times> jsval \<Rightarrow> arg list \<Rightarrow> arg list" where
  "merge_entry_push kv args =
     (case find_arg (fst kv) args of
        Some existingArg \<Rightarrow>
          (if snd kv = JBool False then drop_flag (fst kv) args
           else assign_first (fst kv) (snd kv) args)
      | None \<Rightarrow> args @ [(fst kv, [snd kv])])"

text \<open>The same iteration for the source group (lines 453-465), which unshifts new flags.\<close>

definition merge_entry_unshift :: "string \<times> jsval \<Rightarrow> arg list \<Rightarrow> arg list" where
  "merge_entry_unshift kv args =
     (case find_arg (fst kv) args of
        Some existingArg \<Rightarrow>
          (if snd kv = JBool False then drop_flag (fst kv) args
           else assign_first (fst kv) (snd kv) args)
      | None \<Rightarrow> (fst kv, [snd kv]) # args)"

definition mergeSourceOptions :: "override_map \<Rightarrow> arg list \<Rightarrow> arg list" where
  "mergeSourceOptions options args = fold merge_entry_unshift options args"

definition mergeVideoOptions :: "override_map \<Rightarrow> arg list \<Rightarrow> arg list" where
  "mergeVideoOptions options args = fold merge_entry_push options args"

definition mergeAudioOptions :: "override_map \<Rightarrow> arg list \<Rightarrow> arg list" where
  "mergeAudioOptions options args = fold merge_entry_push options args"

section \<open>The camera object\<close>

datatype js_error =
    JsError string \<comment> \<open>\<^verbatim>\<open>new Error(message)\<close>\<close>
  | TypeError \<comment> \<open>property access on \<^verbatim>\<open>undefined\<close>\<close>
  | RangeError \<comment> \<open>buffer read out of range\<close>
  | LookupFailed \<comment> \<open>the rejection of \<^verbatim>\<open>dnsLookup\<close>\<close>
  | RequestFailed \<comment> \<open>the rejection of \<^verbatim>\<open>jpegExtract\<close>\<close>
  | AlarmStateFailed \<comment> \<open>the rejection of \<^verbatim>\<open>getAlarmState\<close>\<close>
  | SpawnFailed \<comment> \<open>the argument of the child process's \<^verbatim>\<open>'error'\<close> event\<close>

type_synonym sid = string

record camera_settings =
  cameraName :: string
  shutterOff :: "string option"
  shutterHome :: "string option"
  shutterAway :: "string option"
  admin_fps :: int
  admin_bitRate :: int

record camera_details =
  model :: string
  uuid :: string
  cameraSettings :: camera_settings

text \<open>
  A per-camera override is either the structured mapping or the legacy single string.
\<close>

datatype override = OptString string | OptObject override_map

record camera_options =
  opt_ffmpegPath :: "string option"
  enableHwaccelRpi :: bool
  sourceOptions :: "override option"
  videoOptions :: "override option"
  audioOptions :: "override option"

text \<open>What \<^verbatim>\<open>prepareStream\<close> stores for a session (lines 279-323).\<close>

record session_info =
  address :: string
  video_port :: "int option"
  video_srtp :: "buffer option"
  video_ssrc :: "int option"
  audio_port :: "int option"
  audio_srtp :: "buffer option"
  audio_ssrc :: "int option"

text \<open>The handle that \<^verbatim>\<open>spawn\<close> returns.\<close>

record child_process =
  spawnfile :: string
  spawnargs :: "jsval list"

text \<open>
  The fields of \<^verbatim>\<open>this\<close> that the modelled methods read or write. \<open>inDocker\<close> is the
  result of \<^verbatim>\<open>isDocker()\<close>, \<open>accessToken\<close> that of \<^verbatim>\<open>this.authManager.accessToken\<close>, and
  \<open>hasAccessory\<close> says whether \<^verbatim>\<open>setAccessory\<close> has run.
\<close>

record camera =
  cam_id :: string
  cameraDetails :: camera_details
  cameraOptions :: "camera_options option"
  inDocker :: bool
  ffmpegPath :: string
  accessToken :: string
  hasAccessory :: bool
  pendingSessions :: "sid \<rightharpoonup> session_info"
  ongoingSessions :: "sid \<rightharpoonup> child_process"
  serverIpAddress :: "string option"
  nSocketConnectFailures :: nat
  motionIsTriggered :: bool

text \<open>
  The constructor (lines 20-93): the binary is the docker one or the bundled one, unless
  the options name a custom one; both session maps start empty and the failure counter
  at zero. Its call of \<^verbatim>\<open>startListening\<close> is the first of the attempts modelled below.
\<close>

definition custom_binary :: "camera_options option \<Rightarrow> bool" where
  "custom_binary opts = (case opts of None \<Rightarrow> False | Some co \<Rightarrow> truthy_string (opt_ffmpegPath co))"

definition new_camera ::
  "string \<Rightarrow> camera_details \<Rightarrow> camera_options option \<Rightarrow> bool \<Rightarrow> string \<Rightarrow> string \<Rightarrow> camera" where
  "new_camera ident details opts docker bundledFfmpegPath token =
     \<lparr> cam_id = ident, cameraDetails = details, cameraOptions = opts, inDocker = docker,
       ffmpegPath =
         (case opts of
            Some co \<Rightarrow>
              (case opt_ffmpegPath co of
                 Some path \<Rightarrow>
                   if path \<noteq> [] then path else if docker then ''ffmpeg'' else bundledFfmpegPath
               | None \<Rightarrow> if docker then ''ffmpeg'' else bundledFfmpegPath)
          | None \<Rightarrow> if docker then ''ffmpeg'' else bundledFfmpegPath),
       accessToken = token, hasAccessory = False,
       pendingSessions = Map.empty, ongoingSessions = Map.empty,
       serverIpAddress = None, nSocketConnectFailures = 0, motionIsTriggered = False \<rparr>"

text \<open>
  The rate-limit state of the cloud client and the clock:
  \<^verbatim>\<open>this.simplisafe.isBlocked && Date.now() < this.simplisafe.nextAttempt\<close>.
\<close>

record simplisafe =
  isBlocked :: bool
  nextAttempt :: int

definition rate_limited :: "simplisafe \<Rightarrow> int \<Rightarrow> bool" where
  "rate_limited ss now = (isBlocked ss \<and> now < nextAttempt ss)"

section \<open>Numbers handed to a timer\<close>

text \<open>
  A delay is a JavaScript number, a double. A product of integers is exact as a double
  while it stays at or below \<open>2 ^ 53\<close>; a larger one is rounded, is \<^verbatim>\<open>Infinity\<close> once it
  leaves the range of the doubles (\<^verbatim>\<open>2 ** n\<close> is \<^verbatim>\<open>Infinity\<close> from \<open>n = 1024\<close> on), and
  \<^verbatim>\<open>Infinity * 0\<close> is \<^verbatim>\<open>NaN\<close>. Those three are one value here, \<open>Inexact\<close>: all that is
  done with a delay is to hand it to \<^verbatim>\<open>setTimeout\<close>, which treats them alike.
\<close>

datatype js_number = Exact nat | Inexact


text \<open>
  The timers of Node take a delay in milliseconds between 1 and \<open>TIMEOUT_MAX\<close>, which is
  \<open>2 ^ 31 - 1\<close>; any other delay, \<^verbatim>\<open>Infinity\<close> and \<^verbatim>\<open>NaN\<close> included, is set to 1.
  \<open>timer_delay\<close> is the number of milliseconds after which a timer set with the given
  delay fires.
\<close>

definition TIMEOUT_MAX :: nat where
  "TIMEOUT_MAX = 2147483647"

definition timer_delay :: "js_number \<Rightarrow> nat" where
  "timer_delay after =
     (case after of
        Exact d \<Rightarrow> if 1 \<le> d \<and> d \<le> TIMEOUT_MAX then d else 1
      | Inexact \<Rightarrow> 1)"

section \<open>Observable effects\<close>

text \<open>
  Each method returns the camera it leaves behind together with what it did to the
  outside world, in order: completion callbacks, queries, fetches, processes, timers.
  Debug logging is left out; \<^verbatim>\<open>this.log.error\<close> is kept. \<open>SetTimeout a d\<close> is a timer that
  runs \<open>a\<close> after \<open>d\<close> milliseconds.
\<close>

record media_response =
  rsp_port :: int
  rsp_ssrc :: int
  rsp_srtp_key :: buffer
  rsp_srtp_salt :: buffer

record prepare_response =
  rsp_video :: "media_response option"
  rsp_audio :: "media_response option"
  rsp_address :: string
  rsp_type :: string

datatype cb_value =
    NoValue
  | CharacteristicValue jsval
  | Snapshot buffer
  | Prepared prepare_response

datatype callback = Succeeded cb_value | Failed js_error

datatype timer_action = RetryListening | ClearMotion

datatype effect =
    Callback callback
  | LogError string
  | GetAlarmState
  | DnsLookup string
  | JpegExtract string
  | Spawn child_process
  | Kill child_process
  | ForceStopStreamingSession sid
  | SetTimeout timer_action nat
  | UpdateMotionDetected bool
  | SetProgrammableSwitchEvent int

datatype outcome = Returned | Threw js_error

fun callbacks :: "effect list \<Rightarrow> callback list" where
  "callbacks [] = []"
| "callbacks (Callback c # es) = c # callbacks es"
| "callbacks (_ # es) = callbacks es"

section \<open>identify and getState\<close>

definition identify :: "camera \<Rightarrow> camera \<times> effect list \<times> outcome" where
  "identify cam = (cam, [Callback (Succeeded NoValue)], Returned)"

text \<open>\<open>v\<close> is the current \<^verbatim>\<open>characteristic.value\<close> of the service asked about.\<close>

definition getState :: "camera \<Rightarrow> simplisafe \<Rightarrow> int \<Rightarrow> jsval \<Rightarrow> camera \<times> effect list \<times> outcome" where
  "getState cam ss now v =
     (if rate_limited ss now
      then (cam, [Callback (Failed (JsError ''Request blocked (rate limited)''))], Returned)
      else (cam, [Callback (Succeeded (CharacteristicValue v))], Returned))"

section \<open>prepareStream\<close>

text \<open>
  \<^verbatim>\<open>crypto.randomBytes(n)\<close> takes the next \<open>n\<close> bytes of the system's entropy, an
  unending stream of bytes.
\<close>

type_synonym entropy = "nat \<Rightarrow> 8 word"

definition randomBytes :: "nat \<Rightarrow> entropy \<Rightarrow> buffer \<times> entropy" where
  "randomBytes n e = (map e [0..<n], \<lambda>i. e (i + n))"

text \<open>
  \<^verbatim>\<open>buf.readInt32BE(offset)\<close>: four bytes, most significant first, as a signed 32-bit
  integer; a read that leaves the buffer throws.
\<close>

definition readInt32BE :: "buffer \<Rightarrow> nat \<Rightarrow> js_error + int" where
  "readInt32BE buf off =
     (if off + 4 \<le> length buf
      then (let u = uint (buf ! off) * 2 ^ 24 + uint (buf ! (off + 1)) * 2 ^ 16
                    + uint (buf ! (off + 2)) * 2 ^ 8 + uint (buf ! (off + 3))
            in Inr (if u < 2 ^ 31 then u else u - 2 ^ 32))
      else Inl RangeError)"

text \<open>
  Lines 286-288 and 306-308: four random bytes, the first one overwritten with zero,
  read as a big-endian integer.
\<close>

definition generate_ssrc :: "entropy \<Rightarrow> (js_error + int) \<times> entropy" where
  "generate_ssrc e =
     (let (ssrcSource, e') = randomBytes 4 e;
          ssrcSource = ssrcSource[0 := 0]
      in (readInt32BE ssrcSource 0, e'))"

record source_request =
  src_port :: int
  src_srtp_key :: buffer
  src_srtp_salt :: buffer

record prepare_request =
  prep_sessionID :: sid
  targetAddress :: string
  prep_video :: "source_request option"
  prep_audio :: "source_request option"

text \<open>
  One media type of a prepare request (lines 285-303 for video, 305-323 for audio): none
  when the request does not ask for it, else the response with a fresh SSRC.
\<close>

definition prepare_media ::
  "source_request option \<Rightarrow> entropy \<Rightarrow> (js_error + media_response option) \<times> entropy" where
  "prepare_media src e =
     (case src of
        None \<Rightarrow> (Inr None, e)
      | Some m \<Rightarrow>
          (case generate_ssrc e of
             (Inl err, e') \<Rightarrow> (Inl err, e')
           | (Inr ssrc, e') \<Rightarrow>
               (Inr (Some \<lparr> rsp_port = src_port m, rsp_ssrc = ssrc,
                             rsp_srtp_key = src_srtp_key m, rsp_srtp_salt = src_srtp_salt m \<rparr>),
                e')))"

text \<open>
  \<open>myIPAddress\<close> is \<^verbatim>\<open>ip.address()\<close> and \<open>isV4\<close> is \<^verbatim>\<open>ip.isV4Format(myIPAddress)\<close>.
  The session stores, per media type, the port, the key followed by the salt, and the
  SSRC of the response. The result also carries the entropy left over.
\<close>

definition prepareStream ::
  "camera \<Rightarrow> entropy \<Rightarrow> string \<Rightarrow> bool \<Rightarrow> prepare_request
   \<Rightarrow> (camera \<times> effect list \<times> outcome) \<times> entropy" where
  "prepareStream cam e myIPAddress isV4 request =
     (case prepare_media (prep_video request) e of
        (Inl err, e1) \<Rightarrow> ((cam, [], Threw err), e1)
      | (Inr response_video, e1) \<Rightarrow>
     (case prepare_media (prep_audio request) e1 of
        (Inl err, e2) \<Rightarrow> ((cam, [], Threw err), e2)
      | (Inr response_audio, e2) \<Rightarrow>
     (let sessionInfo =
            \<lparr> address = targetAddress request,
              video_port = map_option rsp_port response_video,
              video_srtp = map_option (\<lambda>m. rsp_srtp_key m @ rsp_srtp_salt m) response_video,
              video_ssrc = map_option rsp_ssrc response_video,
              audio_port = map_option rsp_port response_audio,
              audio_srtp = map_option (\<lambda>m. rsp_srtp_key m @ rsp_srtp_salt m) response_audio,
              audio_ssrc = map_option rsp_ssrc response_audio \<rparr>;
          response =
            \<lparr> rsp_video = response_video, rsp_audio = response_audio,
              rsp_address = myIPAddress, rsp_type = (if isV4 then ''v4'' else ''v6'') \<rparr>
      in ((cam \<lparr> pendingSessions :=
                  (pendingSessions cam)(prep_sessionID request \<mapsto> sessionInfo) \<rparr>,
           [Callback (Succeeded (Prepared response))], Returned), e2))))"

section \<open>handleSnapshotRequest\<close>

record snapshot_request =
  snap_width :: int
  snap_height :: int

text \<open>
  What the outside world answers while one snapshot request runs: the rate-limit state
  and clock, the alarm state, the name lookup and the image fetch. Each answer is only
  consumed if the code asks for it.
\<close>

record snapshot_env =
  sn_simplisafe :: simplisafe
  sn_now :: int
  sn_alarmState :: "js_error + string"
  sn_dnsLookup :: "js_error + string"
  sn_jpegExtract :: "js_error + buffer"

text \<open>
  The \<^verbatim>\<open>switch (alarmState)\<close> of lines 222-246: whether the shutter flag of the current
  alarm state lets the snapshot through. States other than the three named match no case.
\<close>

definition shutter_closed :: "camera_settings \<Rightarrow> string \<Rightarrow> bool" where
  "shutter_closed cs alarmState =
     (if alarmState = ''OFF'' then shutterOff cs \<noteq> Some ''open''
      else if alarmState = ''HOME'' then shutterHome cs \<noteq> Some ''open''
      else if alarmState = ''AWAY'' then shutterAway cs \<noteq> Some ''open''
      else False)"

text \<open>
  Lines 249-256: the lookup and its \<^verbatim>\<open>catch\<close>, which only logs when no address is cached.
\<close>

definition snapshot_resolve :: "camera \<Rightarrow> js_error + string \<Rightarrow> camera \<times> effect list" where
  "snapshot_resolve cam lookup =
     (case lookup of
        Inr newIpAddress \<Rightarrow>
          (cam \<lparr> serverIpAddress := Some newIpAddress \<rparr>, [DnsLookup ''media.simplisafe.com''])
      | Inl err \<Rightarrow>
          (cam, DnsLookup ''media.simplisafe.com'' #
                (if \<not> truthy_string (serverIpAddress cam)
                 then [LogError ''Could not resolve hostname for media.simplisafe.com'']
                 else [])))"

definition snapshot_url :: "camera \<Rightarrow> snapshot_request \<Rightarrow> string" where
  "snapshot_url cam request =
     ''https://'' @ tpl_string (serverIpAddress cam) @ ''/v1/'' @ uuid (cameraDetails cam)
       @ ''/mjpg?x='' @ str_of_int (snap_width request) @ ''&fr=1''"

text \<open>Lines 258-273: the fetch and the callback of its outcome.\<close>

definition snapshot_fetch ::
  "camera \<Rightarrow> js_error + buffer \<Rightarrow> snapshot_request \<Rightarrow> effect list" where
  "snapshot_fetch cam fetched request =
     [JpegExtract (snapshot_url cam request)] @
     (case fetched of
        Inr img \<Rightarrow> [Callback (Succeeded (Snapshot img))]
      | Inl err \<Rightarrow> [LogError ''An error occurred while making snapshot request:'',
                     Callback (Failed err)])"

definition handleSnapshotRequest ::
  "camera \<Rightarrow> snapshot_env \<Rightarrow> snapshot_request \<Rightarrow> camera \<times> effect list \<times> outcome" where
  "handleSnapshotRequest cam env request =
     (if rate_limited (sn_simplisafe env) (sn_now env)
      then (cam, [Callback (Failed (JsError ''Camera snapshot request blocked (rate limited)''))],
            Returned)
      else if \<not> motionIsTriggered cam \<and> model (cameraDetails cam) = ''SS001''
      then (case sn_alarmState env of
              Inl err \<Rightarrow> (cam, [GetAlarmState], Threw err)
            | Inr alarmState \<Rightarrow>
                if shutter_closed (cameraSettings (cameraDetails cam)) alarmState
                then (cam, [GetAlarmState, Callback (Failed (JsError ''Privacy shutter closed''))],
                      Returned)
                else (let (cam', resolved) = snapshot_resolve cam (sn_dnsLookup env)
                      in (cam', GetAlarmState # resolved
                                  @ snapshot_fetch cam' (sn_jpegExtract env) request,
                          Returned)))
      else (let (cam', resolved) = snapshot_resolve cam (sn_dnsLookup env)
            in (cam', resolved @ snapshot_fetch cam' (sn_jpegExtract env) request, Returned)))"

section \<open>Building the transcoder arguments\<close>

record video_info =
  vi_width :: "int option"
  vi_fps :: "int option"
  vi_max_bit_rate :: "int option"
  vi_mtu :: "int option"

record audio_info =
  ai_codec :: string
  ai_max_bit_rate :: "int option"
  ai_sample_rate :: "int option"

text \<open>
  A stream request. The session identifier is the one \<^verbatim>\<open>UUIDGen.unparse\<close> yields, in
  \<^verbatim>\<open>prepareStream\<close> as well; \<open>None\<close> is a request without \<^verbatim>\<open>sessionID\<close>.
\<close>

record stream_request =
  req_sessionID :: "sid option"
  req_type :: string
  req_video :: "video_info option"
  req_audio :: "audio_info option"

text \<open>Lines 354-366: the local variables of a start request.\<close>

record rates =
  width :: int
  fps :: int
  videoBitrate :: int
  audioBitrate :: int
  audioSamplerate :: int
  mtu :: int

definition choose_rates :: "camera \<Rightarrow> video_info \<Rightarrow> audio_info \<Rightarrow> rates" where
  "choose_rates cam video audio =
     (let cam_fps = admin_fps (cameraSettings (cameraDetails cam));
          cam_bitRate = admin_bitRate (cameraSettings (cameraDetails cam))
      in \<lparr> width = (case vi_width video of None \<Rightarrow> 1920 | Some w \<Rightarrow> w),
            fps = (case vi_fps video of None \<Rightarrow> cam_fps
                   | Some f \<Rightarrow> if f < cam_fps then f else cam_fps),
            videoBitrate = (case vi_max_bit_rate video of None \<Rightarrow> cam_bitRate
                   | Some b \<Rightarrow> if b < cam_bitRate then b else cam_bitRate),
            audioBitrate = (case ai_max_bit_rate audio of None \<Rightarrow> 96 | Some b \<Rightarrow> b),
            audioSamplerate = (case ai_sample_rate audio of None \<Rightarrow> 16 | Some r \<Rightarrow> r),
            mtu = (case vi_mtu video of None \<Rightarrow> 1316 | Some m \<Rightarrow> m) \<rparr>)"

record build =
  sourceArgs :: "arg list"
  videoArgs :: "arg list"
  audioArgs :: "arg list"

definition opt_num :: "int option \<Rightarrow> jsval" where
  "opt_num x = (case x of None \<Rightarrow> JUndefined | Some n \<Rightarrow> JNum n)"

definition source_url :: "camera \<Rightarrow> int \<Rightarrow> string" where
  "source_url cam w =
     ''https://'' @ tpl_string (serverIpAddress cam) @ ''/v1/'' @ uuid (cameraDetails cam)
       @ ''/flv?x='' @ str_of_int w @ ''&audioEncoding=AAC''"

definition srtp_url :: "string \<Rightarrow> int option \<Rightarrow> string \<Rightarrow> string" where
  "srtp_url addr port pkt_size =
     ''srtp://'' @ addr @ '':'' @ tpl_number port @ ''?rtcpport='' @ tpl_number port
       @ ''&localrtcpport='' @ tpl_number port @ ''&pkt_size='' @ pkt_size"

text \<open>
  Lines 380-421. \<^verbatim>\<open>sessionInfo.video_srtp.toString('base64')\<close> throws when the session was
  prepared without that media type.
\<close>

definition initial_args :: "camera \<Rightarrow> session_info \<Rightarrow> rates \<Rightarrow> js_error + build" where
  "initial_args cam sessionInfo r =
     (case video_srtp sessionInfo of None \<Rightarrow> Inl TypeError | Some vsrtp \<Rightarrow>
      case audio_srtp sessionInfo of None \<Rightarrow> Inl TypeError | Some asrtp \<Rightarrow>
      Inr \<lparr> sourceArgs =
              [(''-re'', []),
               (''-headers'', [JStr (''Authorization: Bearer '' @ accessToken cam)]),
               (''-i'', [JStr (source_url cam (width r))])],
            videoArgs =
              [(''-map'', [JStr ''0:0'']),
               (''-vcodec'', [JStr ''libx264'']),
               (''-tune'', [JStr ''zerolatency'']),
               (''-preset'', [JStr ''superfast'']),
               (''-pix_fmt'', [JStr ''yuv420p'']),
               (''-r'', [JNum (fps r)]),
               (''-f'', [JStr ''rawvideo'']),
               (''-vf'', [JStr (''scale='' @ str_of_int (width r) @ '':-2'')]),
               (''-b:v'', [JStr (str_of_int (videoBitrate r) @ ''k'')]),
               (''-bufsize'', [JStr (str_of_int (2 * videoBitrate r) @ ''k'')]),
               (''-maxrate'', [JStr (str_of_int (videoBitrate r) @ ''k'')]),
               (''-payload_type'', [JNum 99]),
               (''-ssrc'', [opt_num (video_ssrc sessionInfo)]),
               (''-f'', [JStr ''rtp'']),
               (''-srtp_out_suite'', [JStr ''AES_CM_128_HMAC_SHA1_80'']),
               (''-srtp_out_params'', [JStr (base64 vsrtp)]),
               (srtp_url (address sessionInfo) (video_port sessionInfo) (str_of_int (mtu r)), [])],
            audioArgs =
              [(''-map'', [JStr ''0:1'']),
               (''-acodec'', [JStr ''libfdk_aac'']),
               (''-flags'', [JStr ''+global_header'']),
               (''-profile:a'', [JStr ''aac_eld'']),
               (''-ac'', [JStr ''1'']),
               (''-ar'', [JStr (str_of_int (audioSamplerate r) @ ''k'')]),
               (''-b:a'', [JStr (str_of_int (audioBitrate r) @ ''k'')]),
               (''-bufsize'', [JStr (str_of_int (2 * audioBitrate r) @ ''k'')]),
               (''-payload_type'', [JNum 110]),
               (''-ssrc'', [opt_num (audio_ssrc sessionInfo)]),
               (''-f'', [JStr ''rtp'']),
               (''-srtp_out_suite'', [JStr ''AES_CM_128_HMAC_SHA1_80'']),
               (''-srtp_out_params'', [JStr (base64 asrtp)]),
               (srtp_url (address sessionInfo) (audio_port sessionInfo) ''188'', [])] \<rparr>)"

text \<open>
  Lines 423-428: under docker with no custom binary the width is limited to 720 and
  written into the \<^verbatim>\<open>-vf\<close> argument. Assigning to index 1 of a \<^verbatim>\<open>find\<close> that found
  nothing throws.
\<close>

definition docker_clamp :: "camera \<Rightarrow> rates \<Rightarrow> build \<Rightarrow> js_error + build" where
  "docker_clamp cam r b =
     (if inDocker cam \<and> \<not> custom_binary (cameraOptions cam)
      then (let w = min (width r) 720
            in case find_arg ''-vf'' (videoArgs b) of
                 None \<Rightarrow> Inl TypeError
               | Some vFilterArg \<Rightarrow>
                   Inr (b \<lparr> videoArgs :=
                          assign_first ''-vf'' (JStr (''scale='' @ str_of_int w @ '':-2''))
                            (videoArgs b) \<rparr>))
      else Inr b)"

text \<open>
  \<^verbatim>\<open>args.splice(args.indexOf(found), 1)\<close> removes the argument that \<^verbatim>\<open>find\<close> returned;
  when it returned nothing the index is -1 and the last element goes.
\<close>

fun remove_first_flag :: "string \<Rightarrow> arg list \<Rightarrow> arg list" where
  "remove_first_flag key [] = []"
| "remove_first_flag key (a # as) = (if fst a = key then as else a # remove_first_flag key as)"

definition splice_out_found :: "string \<Rightarrow> arg list \<Rightarrow> arg list" where
  "splice_out_found key args =
     (case find_arg key args of
        Some found \<Rightarrow> remove_first_flag key args
      | None \<Rightarrow> butlast args)"

text \<open>
  \<^verbatim>\<open>args.splice(args.indexOf(found), 0, x)\<close> inserts \<open>x\<close> before the argument found, and
  before the last element when nothing was found.
\<close>

fun insert_before_flag :: "string \<Rightarrow> arg \<Rightarrow> arg list \<Rightarrow> arg list" where
  "insert_before_flag key x [] = [x]"
| "insert_before_flag key x (a # as) =
     (if fst a = key then x # a # as else a # insert_before_flag key x as)"

definition splice_in_found :: "string \<Rightarrow> arg \<Rightarrow> arg list \<Rightarrow> arg list" where
  "splice_in_found key x args =
     (case find_arg key args of
        Some found \<Rightarrow> insert_before_flag key x args
      | None \<Rightarrow> (if args = [] then [x] else butlast args @ [x, last args]))"

text \<open>Lines 430-438: a request for the OPUS codec.\<close>

definition opus_step :: "audio_info option \<Rightarrow> build \<Rightarrow> js_error + build" where
  "opus_step audio b =
     (if (case audio of None \<Rightarrow> False | Some a \<Rightarrow> ai_codec a = ''OPUS'')
      then (case find_arg ''-i'' (sourceArgs b) of
              Some (_, JStr url # _) \<Rightarrow>
                (case find_arg ''-acodec'' (audioArgs b) of
                   None \<Rightarrow> Inl TypeError
                 | Some aCodecArg \<Rightarrow>
                     Inr (b \<lparr> sourceArgs :=
                              assign_first ''-i'' (JStr (replace_first ''&audioEncoding=AAC'' [] url))
                                (sourceArgs b),
                            audioArgs :=
                              splice_out_found ''-profile:a''
                                (assign_first ''-acodec'' (JStr ''libopus'') (audioArgs b)) \<rparr>))
            | _ \<Rightarrow> Inl TypeError)
      else Inr b)"

text \<open>Lines 441-448: hardware acceleration on a Raspberry Pi.\<close>

definition hwaccel_step :: "build \<Rightarrow> js_error + build" where
  "hwaccel_step b =
     (case find_arg ''-vcodec'' (videoArgs b) of
        None \<Rightarrow> Inl TypeError
      | Some vCodecArg \<Rightarrow>
          Inr (b \<lparr> sourceArgs := splice_in_found ''-i'' (''-vcodec'', [JStr ''h264_mmal'']) (sourceArgs b),
                 videoArgs :=
                   drop_flag ''-preset'' (drop_flag ''-tune''
                     (assign_first ''-vcodec'' (JStr ''h264_omx'') (videoArgs b))) \<rparr>))"

text \<open>
  The legacy string form of an override (lines 451, 469, 487): split at dashes, drop the
  empty pieces, put the dash back, split each piece at spaces, and make an object of the
  resulting [flag, value, ...] entries. A later entry of the same flag overwrites the
  value and keeps the property's place.
\<close>

fun obj_set :: "string \<Rightarrow> jsval \<Rightarrow> override_map \<Rightarrow> override_map" where
  "obj_set k v [] = [(k, v)]"
| "obj_set k v (p # ps) = (if fst p = k then (k, v) # ps else p # obj_set k v ps)"

definition fromEntries :: "string list list \<Rightarrow> override_map" where
  "fromEntries entries =
     fold (\<lambda>entry obj. case entry of
               [] \<Rightarrow> obj_set ''undefined'' JUndefined obj
             | [k] \<Rightarrow> obj_set k JUndefined obj
             | k # v # _ \<Rightarrow> obj_set k (JStr v) obj) entries []"

definition parse_option_string :: "string \<Rightarrow> override_map" where
  "parse_option_string str =
     fromEntries
       (map (\<lambda>a. filter (\<lambda>x. x \<noteq> []) (split_on CHR '' '' a))
          (map (\<lambda>arg. CHR ''-'' # arg)
             (filter (\<lambda>x. x \<noteq> []) (split_on CHR ''-'' str))))"

definition options_of :: "override \<Rightarrow> override_map" where
  "options_of ov = (case ov of OptString str \<Rightarrow> parse_option_string str | OptObject obj \<Rightarrow> obj)"

text \<open>\<^verbatim>\<open>if (this.cameraOptions.sourceOptions)\<close>: absent and the empty string are falsy.\<close>

definition given_options :: "override option \<Rightarrow> override_map option" where
  "given_options x =
     (case x of None \<Rightarrow> None
      | Some (OptString str) \<Rightarrow> (if str = [] then None else Some (parse_option_string str))
      | Some (OptObject obj) \<Rightarrow> Some obj)"

text \<open>Lines 440-503.\<close>

definition camera_options_step :: "camera \<Rightarrow> build \<Rightarrow> js_error + build" where
  "camera_options_step cam b =
     (case cameraOptions cam of
        None \<Rightarrow> Inr b
      | Some co \<Rightarrow>
          (case (if enableHwaccelRpi co then hwaccel_step b else Inr b) of
             Inl err \<Rightarrow> Inl err
           | Inr b1 \<Rightarrow>
               Inr \<lparr> sourceArgs = (case given_options (sourceOptions co) of
                                      None \<Rightarrow> sourceArgs b1
                                    | Some options \<Rightarrow> mergeSourceOptions options (sourceArgs b1)),
                     videoArgs = (case given_options (videoOptions co) of
                                      None \<Rightarrow> videoArgs b1
                                    | Some options \<Rightarrow> mergeVideoOptions options (videoArgs b1)),
                     audioArgs = (case given_options (audioOptions co) of
                                      None \<Rightarrow> audioArgs b1
                                    | Some options \<Rightarrow> mergeAudioOptions options (audioArgs b1)) \<rparr>))"

definition build_args ::
  "camera \<Rightarrow> session_info \<Rightarrow> audio_info option \<Rightarrow> rates \<Rightarrow> js_error + build" where
  "build_args cam sessionInfo audio r =
     (case initial_args cam sessionInfo r of Inl err \<Rightarrow> Inl err | Inr b0 \<Rightarrow>
      case docker_clamp cam r b0 of Inl err \<Rightarrow> Inl err | Inr b1 \<Rightarrow>
      case opus_step audio b1 of Inl err \<Rightarrow> Inl err | Inr b2 \<Rightarrow>
      camera_options_step cam b2)"

text \<open>Lines 505-507: the groups are flattened and every string is trimmed.\<close>

definition trim_value :: "jsval \<Rightarrow> jsval" where
  "trim_value a = (case a of JStr s \<Rightarrow> JStr (js_trim s) | _ \<Rightarrow> a)"

definition flatten_args :: "arg list \<Rightarrow> jsval list" where
  "flatten_args args = concat (map (\<lambda>arg. JStr (js_trim (fst arg)) # map trim_value (snd arg)) args)"

section \<open>handleStreamRequest\<close>

text \<open>
  What the outside world answers while one stream request runs: the rate-limit state and
  clock, the name lookup, and whether \<^verbatim>\<open>cmd.kill\<close> throws.
\<close>

record stream_env =
  st_simplisafe :: simplisafe
  st_now :: int
  st_dnsLookup :: "js_error + string"
  st_killThrows :: bool

text \<open>
  Lines 380-560 of a start request, once an address is known: build the arguments, spawn,
  register the process under the session identifier, delete the pending session.
  \<^verbatim>\<open>spawn\<close> hands back the process object at once; whether the binary could be started
  is only known from the events the object emits afterwards.
\<close>

definition spawn_stream ::
  "camera \<Rightarrow> sid \<Rightarrow> session_info \<Rightarrow> audio_info option \<Rightarrow> rates \<Rightarrow> effect list
   \<Rightarrow> camera \<times> effect list \<times> outcome" where
  "spawn_stream cam sessionIdentifier sessionInfo audio r done =
     (case build_args cam sessionInfo audio r of
        Inl err \<Rightarrow> (cam, done, Threw err)
      | Inr b \<Rightarrow>
          (let cmd = \<lparr> spawnfile = ffmpegPath cam,
                       spawnargs = flatten_args (sourceArgs b) @ flatten_args (videoArgs b)
                                     @ flatten_args (audioArgs b) \<rparr>
           in (cam \<lparr> ongoingSessions := (ongoingSessions cam)(sessionIdentifier \<mapsto> cmd),
                     pendingSessions := (pendingSessions cam)(sessionIdentifier := None) \<rparr>,
               done @ [Spawn cmd], Returned)))"

text \<open>
  Lines 368-378, then the above. The request waits for the lookup; when it goes on, it
  reads and writes the camera as it is by then, so this part takes the camera of that
  moment.
\<close>

definition resume_start ::
  "camera \<Rightarrow> js_error + string \<Rightarrow> sid \<Rightarrow> session_info \<Rightarrow> audio_info option \<Rightarrow> rates
   \<Rightarrow> camera \<times> effect list \<times> outcome" where
  "resume_start cam lookup sessionIdentifier sessionInfo audio r =
     (case lookup of
        Inr newIpAddress \<Rightarrow>
          spawn_stream (cam \<lparr> serverIpAddress := Some newIpAddress \<rparr>)
            sessionIdentifier sessionInfo audio r [DnsLookup ''media.simplisafe.com'']
      | Inl err \<Rightarrow>
          if \<not> truthy_string (serverIpAddress cam)
          then (cam \<lparr> pendingSessions := (pendingSessions cam)(sessionIdentifier := None) \<rparr>,
                [DnsLookup ''media.simplisafe.com'',
                 LogError ''Camera stream request failed, could not resolve hostname for media.simplisafe.com'',
                 Callback (Failed err)],
                Returned)
          else spawn_stream cam sessionIdentifier sessionInfo audio r
                 [DnsLookup ''media.simplisafe.com''])"

text \<open>
  Lines 354-366, then the above with no other request in between: reading a property of
  a missing \<^verbatim>\<open>request.video\<close> or \<^verbatim>\<open>request.audio\<close> throws.
\<close>

definition start_stream ::
  "camera \<Rightarrow> stream_env \<Rightarrow> sid \<Rightarrow> session_info \<Rightarrow> stream_request
   \<Rightarrow> camera \<times> effect list \<times> outcome" where
  "start_stream cam env sessionIdentifier sessionInfo request =
     (case req_video request of None \<Rightarrow> (cam, [], Threw TypeError) | Some video \<Rightarrow>
      case req_audio request of None \<Rightarrow> (cam, [], Threw TypeError) | Some audio \<Rightarrow>
      resume_start cam (st_dnsLookup env) sessionIdentifier sessionInfo (req_audio request)
        (choose_rates cam video audio))"

text \<open>Lines 563-574: a stop request.\<close>

definition stop_stream :: "camera \<Rightarrow> stream_env \<Rightarrow> sid \<Rightarrow> camera \<times> effect list \<times> outcome" where
  "stop_stream cam env sessionIdentifier =
     (cam \<lparr> ongoingSessions := (ongoingSessions cam)(sessionIdentifier := None) \<rparr>,
      (case ongoingSessions cam sessionIdentifier of
         None \<Rightarrow> []
       | Some cmd \<Rightarrow>
           Kill cmd # (if st_killThrows env
                       then [LogError ''Error occurred terminating the video process!'']
                       else []))
      @ [Callback (Succeeded NoValue)],
      Returned)"

definition handleStreamRequest ::
  "camera \<Rightarrow> stream_env \<Rightarrow> stream_request \<Rightarrow> camera \<times> effect list \<times> outcome" where
  "handleStreamRequest cam env request =
     (case req_sessionID request of
        None \<Rightarrow> (cam, [], Returned)
      | Some sessionIdentifier \<Rightarrow>
          if req_type request = ''start'' then
            (if rate_limited (st_simplisafe env) (st_now env)
             then (cam \<lparr> pendingSessions := (pendingSessions cam)(sessionIdentifier := None) \<rparr>,
                   [LogError ''Camera stream request blocked (rate limited)'',
                    Callback (Failed (JsError ''Camera stream request blocked (rate limited)''))],
                   Returned)
             else (case pendingSessions cam sessionIdentifier of
                     Some sessionInfo \<Rightarrow> start_stream cam env sessionIdentifier sessionInfo request
                   | None \<Rightarrow>
                       (cam \<lparr> pendingSessions := (pendingSessions cam)(sessionIdentifier := None) \<rparr>,
                        [], Returned)))
          else if req_type request = ''stop'' then stop_stream cam env sessionIdentifier
          else (cam, [], Returned))"

section \<open>The handlers of a spawned transcoder\<close>

text \<open>
  Lines 522-555. The three handlers share the local variable \<^verbatim>\<open>started\<close>, the camera
  and the callback of the start request; what the process emits is delivered to them
  one event at a time.
\<close>

datatype proc_event =
    StderrData string
  | ProcError js_error
  | ProcClose "int option"

definition on_stderr_data :: "camera \<times> bool \<Rightarrow> (camera \<times> bool) \<times> effect list" where
  "on_stderr_data st =
     (case st of (cam, started) \<Rightarrow>
        if \<not> started then ((cam, True), [Callback (Succeeded NoValue)])
        else ((cam, started), []))"

definition on_error :: "js_error \<Rightarrow> camera \<times> bool \<Rightarrow> (camera \<times> bool) \<times> effect list" where
  "on_error err st =
     (st, [LogError ''An error occurred while making stream request:'', Callback (Failed err)])"

definition on_close :: "sid \<Rightarrow> int option \<Rightarrow> camera \<times> bool \<Rightarrow> (camera \<times> bool) \<times> effect list" where
  "on_close sessionId code st =
     (case st of (cam, started) \<Rightarrow>
        (case code of
           None \<Rightarrow> (st, [])
         | Some c \<Rightarrow>
             if c = 0 then (st, [])
             else if c = 255 then (st, [])
             else if \<not> started
             then (st, [Callback (Failed (JsError (''Error: FFmpeg exited with code '' @ str_of_int c)))])
             else (st, [ForceStopStreamingSession sessionId])))"

fun stream_event :: "sid \<Rightarrow> proc_event \<Rightarrow> camera \<times> bool \<Rightarrow> (camera \<times> bool) \<times> effect list" where
  "stream_event sessionId (StderrData d) st = on_stderr_data st"
| "stream_event sessionId (ProcError err) st = on_error err st"
| "stream_event sessionId (ProcClose code) st = on_close sessionId code st"

fun stream_events ::
  "sid \<Rightarrow> proc_event list \<Rightarrow> camera \<times> bool \<Rightarrow> (camera \<times> bool) \<times> effect list" where
  "stream_events sessionId [] st = (st, [])"
| "stream_events sessionId (ev # evs) st =
     (let (st1, effs1) = stream_event sessionId ev st;
          (st2, effs2) = stream_events sessionId evs st1
      in (st2, effs1 @ effs2))"

section \<open>The event subscription\<close>

text \<open>
  \<^verbatim>\<open>EVENT_TYPES\<close>, \<^verbatim>\<open>RateLimitError\<close> and \<^verbatim>\<open>SOCKET_RETRY_INTERVAL\<close> are imported from the
  cloud client. The event types the camera looks at are constructors, every other one is
  \<open>OTHER_EVENT\<close>; the retry interval is a parameter.
\<close>

datatype event_type =
    CONNECTED | DISCONNECT | CONNECTION_LOST | CAMERA_MOTION | DOORBELL | OTHER_EVENT string

record event_internal =
  mainCamera :: "string option"

record event_data =
  sensorSerial :: "string option"
  internal :: "event_internal option"

text \<open>How one call of \<^verbatim>\<open>subscribeToEvents\<close> ends.\<close>

datatype subscribe_result = Subscribed | ThrewRateLimitError | ThrewOtherError


text \<open>Lines 155-170: the socket events.\<close>

definition socket_event :: "nat \<Rightarrow> camera \<Rightarrow> event_type \<Rightarrow> camera \<times> effect list" where
  "socket_event SOCKET_RETRY_INTERVAL cam event =
     (case event of
        CONNECTED \<Rightarrow> (cam \<lparr> nSocketConnectFailures := 0 \<rparr>, [])
      | DISCONNECT \<Rightarrow> (cam, [])
      | CONNECTION_LOST \<Rightarrow>
          (cam, [SetTimeout RetryListening (timer_delay (Exact SOCKET_RETRY_INTERVAL))])
      | _ \<Rightarrow> (cam, []))"

text \<open>
  Lines 172-196: the camera events. \<open>hasDoorbell\<close> says whether the accessory has a
  doorbell service.
\<close>

definition camera_event ::
  "bool \<Rightarrow> camera \<Rightarrow> event_type \<Rightarrow> event_data option \<Rightarrow> camera \<times> effect list \<times> outcome" where
  "camera_event hasDoorbell cam event data =
     (case data of
        None \<Rightarrow> (cam, [], Returned)
      | Some d \<Rightarrow>
          if \<not> hasAccessory cam then (cam, [], Returned)
          else (let eventCameraIds =
                      sensorSerial d # (case internal d of None \<Rightarrow> [] | Some i \<Rightarrow> [mainCamera i])
                in if Some (cam_id cam) \<in> set eventCameraIds
                   then (case event of
                           CAMERA_MOTION \<Rightarrow>
                             (cam \<lparr> motionIsTriggered := True \<rparr>,
                              [UpdateMotionDetected True, SetTimeout ClearMotion (timer_delay (Exact 5000))],
                              Returned)
                         | DOORBELL \<Rightarrow>
                             if hasDoorbell then (cam, [SetProgrammableSwitchEvent 0], Returned)
                             else (cam, [], Threw TypeError)
                         | _ \<Rightarrow> (cam, [], Returned))
                   else (cam, [], Returned)))"

definition on_event ::
  "nat \<Rightarrow> bool \<Rightarrow> camera \<Rightarrow> event_type \<Rightarrow> event_data option \<Rightarrow> camera \<times> effect list \<times> outcome" where
  "on_event SOCKET_RETRY_INTERVAL hasDoorbell cam event data =
     (let (cam1, effs1) = socket_event SOCKET_RETRY_INTERVAL cam event;
          (cam2, effs2, out) = camera_event hasDoorbell cam1 event data
      in (cam2, effs1 @ effs2, out))"

text \<open>The timer that ends a motion event (lines 183-186).\<close>

definition clear_motion :: "camera \<Rightarrow> camera \<times> effect list" where
  "clear_motion cam = (cam \<lparr> motionIsTriggered := False \<rparr>, [UpdateMotionDetected False])"


section \<open>A camera, requests and answers for the examples\<close>

definition example_details :: camera_details where
  "example_details =
     \<lparr> model = ''SS001'', uuid = ''a1b2c3'',
       cameraSettings =
         \<lparr> cameraName = ''Porch'', shutterOff = Some ''open'', shutterHome = Some ''closed'',
           shutterAway = Some ''open'', admin_fps = 20, admin_bitRate = 284 \<rparr> \<rparr>"

text \<open>A camera in a docker container, with no options configured.\<close>

definition example_camera :: camera where
  "example_camera = new_camera ''cam-1'' example_details None True ''/opt/ffmpeg'' ''token''"

definition example_entropy :: entropy where
  "example_entropy = (\<lambda>i. 255)"

text \<open>An entropy that repeats eight different bytes.\<close>

definition mixed_entropy :: entropy where
  "mixed_entropy = (\<lambda>i. [0x9C, 0x14, 0x25, 0x36, 0xE1, 0x58, 0x69, 0x7A] ! (i mod 8))"

definition example_prepare :: prepare_request where
  "example_prepare =
     \<lparr> prep_sessionID = ''s1'', targetAddress = ''10.0.0.5'',
       prep_video = Some \<lparr> src_port = 50000, src_srtp_key = [1, 2, 3], src_srtp_salt = [4] \<rparr>,
       prep_audio = Some \<lparr> src_port = 50002, src_srtp_key = [5, 6, 7], src_srtp_salt = [8] \<rparr> \<rparr>"

text \<open>The session that \<open>example_prepare\<close> leaves pending under \<open>example_entropy\<close>.\<close>

definition example_session :: session_info where
  "example_session =
     \<lparr> address = ''10.0.0.5'',
       video_port = Some 50000, video_srtp = Some [1, 2, 3, 4], video_ssrc = Some 16777215,
       audio_port = Some 50002, audio_srtp = Some [5, 6, 7, 8], audio_ssrc = Some 16777215 \<rparr>"

definition example_video :: video_info where
  "example_video =
     \<lparr> vi_width = Some 1280, vi_fps = Some 30, vi_max_bit_rate = Some 299, vi_mtu = Some 1378 \<rparr>"

definition example_audio :: audio_info where
  "example_audio = \<lparr> ai_codec = ''AAC-eld'', ai_max_bit_rate = Some 24, ai_sample_rate = Some 16 \<rparr>"

text \<open>The example camera once the media host has been resolved.\<close>

definition resolved_camera :: camera where
  "resolved_camera = example_camera \<lparr> serverIpAddress := Some ''203.0.113.7'' \<rparr>"

definition example_start :: stream_request where
  "example_start =
     \<lparr> req_sessionID = Some ''s1'', req_type = ''start'',
       req_video = Some example_video, req_audio = Some example_audio \<rparr>"

definition example_stop :: stream_request where
  "example_stop =
     \<lparr> req_sessionID = Some ''s1'', req_type = ''stop'', req_video = None, req_audio = None \<rparr>"

text \<open>A world in which nothing is rate limited and the media host resolves.\<close>

definition online_env :: stream_env where
  "online_env =
     \<lparr> st_simplisafe = \<lparr> isBlocked = False, nextAttempt = 0 \<rparr>, st_now = 1000,
       st_dnsLookup = Inr ''203.0.113.7'', st_killThrows = False \<rparr>"

text \<open>The example camera after \<open>example_prepare\<close>, and after the start request that follows.\<close>

definition prepared_camera :: camera where
  "prepared_camera =
     fst (fst (prepareStream example_camera example_entropy ''192.168.1.20'' True example_prepare))"

definition streaming_camera :: camera where
  "streaming_camera = fst (handleStreamRequest prepared_camera online_env example_start)"

text \<open>A world in which the media host does not resolve.\<close>

definition offline_env :: stream_env where
  "offline_env =
     \<lparr> st_simplisafe = \<lparr> isBlocked = False, nextAttempt = 0 \<rparr>, st_now = 1000,
       st_dnsLookup = Inl LookupFailed, st_killThrows = False \<rparr>"

text \<open>A world in which the cloud client is rate limited for another second.\<close>

definition blocked_env :: stream_env where
  "blocked_env =
     \<lparr> st_simplisafe = \<lparr> isBlocked = True, nextAttempt = 2000 \<rparr>, st_now = 1000,
       st_dnsLookup = Inr ''203.0.113.7'', st_killThrows = False \<rparr>"

definition example_snapshot :: snapshot_request where
  "example_snapshot = \<lparr> snap_width = 640, snap_height = 360 \<rparr>"

text \<open>
  Snapshot worlds: the alarm is armed at home and everything works; the alarm is off and
  neither the lookup nor the fetch succeeds; the alarm is armed at home and the cloud
  client is rate limited.
\<close>

definition home_snapshot_env :: snapshot_env where
  "home_snapshot_env =
     \<lparr> sn_simplisafe = \<lparr> isBlocked = False, nextAttempt = 0 \<rparr>, sn_now = 1000,
       sn_alarmState = Inr ''HOME'', sn_dnsLookup = Inr ''203.0.113.7'',
       sn_jpegExtract = Inr [0xFF, 0xD8, 0xFF, 0xD9] \<rparr>"

definition offline_snapshot_env :: snapshot_env where
  "offline_snapshot_env =
     \<lparr> sn_simplisafe = \<lparr> isBlocked = False, nextAttempt = 0 \<rparr>, sn_now = 1000,
       sn_alarmState = Inr ''OFF'', sn_dnsLookup = Inl LookupFailed,
       sn_jpegExtract = Inl RequestFailed \<rparr>"

definition blocked_snapshot_env :: snapshot_env where
  "blocked_snapshot_env =
     \<lparr> sn_simplisafe = \<lparr> isBlocked = True, nextAttempt = 2000 \<rparr>, sn_now = 1000,
       sn_alarmState = Inr ''HOME'', sn_dnsLookup = Inr ''203.0.113.7'',
       sn_jpegExtract = Inr [0xFF, 0xD8, 0xFF, 0xD9] \<rparr>"

text \<open>
  The resolved camera with hardware acceleration switched on and a video override that
  removes \<^verbatim>\<open>-tune\<close>.
\<close>

definition hwaccel_camera :: camera where
  "hwaccel_camera =
     resolved_camera \<lparr> cameraOptions := Some
       \<lparr> opt_ffmpegPath = None, enableHwaccelRpi = True, sourceOptions = None,
         videoOptions = Some (OptObject [(''-tune'', JBool False)]), audioOptions = None \<rparr> \<rparr>"

section \<open>Auxiliary notions\<close>

text \<open>
  An override entry is settled in a group when the first argument carrying its flag
  already holds its value at index 1.
\<close>

definition settled :: "arg list \<Rightarrow> string \<times> jsval \<Rightarrow> bool" where
  "settled args kv = (\<exists>rest. find_arg (fst kv) args = Some (fst kv, snd kv # rest))"

text \<open>
  No session identifier is a key of both session maps.
\<close>

definition exclusive :: "camera \<Rightarrow> bool" where
  "exclusive cam = (dom (pendingSessions cam) \<inter> dom (ongoingSessions cam) = {})"

section \<open>Facts about argument groups\<close>

lemma find_arg_Nil: "find_arg k [] = None"
  by (simp add: find_arg_def)

lemma find_arg_Cons: "find_arg k (a # as) = (if fst a = k then Some a else find_arg k as)"
  by (simp add: find_arg_def)

lemma find_arg_fst: "find_arg k as = Some a \<Longrightarrow> fst a = k"
  by (induction as) (auto simp: find_arg_Cons find_arg_Nil split: if_splits)

lemma find_arg_append:
  "find_arg k (as @ bs) = (case find_arg k as of Some a \<Rightarrow> Some a | None \<Rightarrow> find_arg k bs)"
  by (induction as) (auto simp: find_arg_Cons find_arg_Nil)

lemma fst_set_index1: "fst (set_index1 v a) = fst a"
  by (cases "(v, a)" rule: set_index1.cases) auto

lemma find_arg_assign_first_other:
  "k \<noteq> k' \<Longrightarrow> find_arg k (assign_first k' v as) = find_arg k as"
  by (induction as) (auto simp: find_arg_Cons fst_set_index1)

lemma find_arg_assign_first_same:
  "find_arg k as = Some a \<Longrightarrow> find_arg k (assign_first k v as) = Some (set_index1 v a)"
  by (induction as) (auto simp: find_arg_Cons fst_set_index1 find_arg_Nil)

lemma find_arg_drop_flag_other:
  "k \<noteq> k' \<Longrightarrow> find_arg k (drop_flag k' as) = find_arg k as"
  by (induction as) (auto simp: find_arg_Cons find_arg_Nil drop_flag_def)

lemma assign_first_settled:
  "find_arg k as = Some (k', v # rest) \<Longrightarrow> assign_first k v as = as"
  by (induction as) (auto simp: find_arg_Cons find_arg_Nil split: if_splits)

lemma assigned_is_settled:
  assumes "find_arg (fst kv) args = Some a"
  shows "settled (assign_first (fst kv) (snd kv) args) kv"
proof -
  have fa: "fst a = fst kv" using assms by (rule find_arg_fst)
  obtain k vs where a: "a = (k, vs)" by (cases a)
  have "find_arg (fst kv) (assign_first (fst kv) (snd kv) args) = Some (set_index1 (snd kv) a)"
    using assms by (rule find_arg_assign_first_same)
  moreover have "\<exists>rest. set_index1 (snd kv) a = (fst kv, snd kv # rest)"
    using fa a by (cases vs) auto
  ultimately show ?thesis by (auto simp: settled_def)
qed

subsection \<open>Entries that push\<close>

lemma settled_push_same:
  "snd kv \<noteq> JBool False \<Longrightarrow> settled (merge_entry_push kv args) kv"
proof (cases "find_arg (fst kv) args")
  case None
  then show ?thesis
    by (simp add: settled_def merge_entry_push_def find_arg_append find_arg_Cons)
next
  case (Some a)
  assume "snd kv \<noteq> JBool False"
  then show ?thesis
    using Some assigned_is_settled [OF Some] by (simp add: merge_entry_push_def)
qed

lemma settled_push_other:
  "fst kv' \<noteq> fst kv \<Longrightarrow> settled args kv \<Longrightarrow> settled (merge_entry_push kv' args) kv"
  by (auto simp: settled_def merge_entry_push_def find_arg_drop_flag_other find_arg_append
        find_arg_Cons find_arg_Nil find_arg_assign_first_other split: option.splits)

lemma push_settled_id:
  "settled args kv \<Longrightarrow> snd kv \<noteq> JBool False \<Longrightarrow> merge_entry_push kv args = args"
  by (auto simp: settled_def merge_entry_push_def assign_first_settled)

lemma settled_fold_push_other:
  "fst kv \<notin> fst ` set opts \<Longrightarrow> settled args kv
   \<Longrightarrow> settled (fold merge_entry_push opts args) kv"
proof (induction opts arbitrary: args)
  case Nil
  then show ?case by simp
next
  case (Cons a opts)
  have "settled (merge_entry_push a args) kv"
    using Cons.prems by (intro settled_push_other) auto
  then show ?case using Cons by auto
qed

lemma settled_fold_push_all:
  "distinct (map fst opts) \<Longrightarrow> JBool False \<notin> snd ` set opts \<Longrightarrow> kv \<in> set opts
   \<Longrightarrow> settled (fold merge_entry_push opts args) kv"
proof (induction opts arbitrary: args)
  case Nil
  then show ?case by simp
next
  case (Cons a opts)
  show ?case
  proof (cases "kv = a")
    case True
    have "settled (merge_entry_push a args) a"
      using Cons.prems(2) by (intro settled_push_same) auto
    then show ?thesis
      using True Cons.prems(1) by (auto intro: settled_fold_push_other)
  next
    case False
    then show ?thesis using Cons by auto
  qed
qed

lemma fold_push_settled_id:
  "\<forall>kv \<in> set opts. settled args kv \<Longrightarrow> JBool False \<notin> snd ` set opts
   \<Longrightarrow> fold merge_entry_push opts args = args"
proof (induction opts)
  case Nil
  then show ?case by simp
next
  case (Cons a opts)
  have "merge_entry_push a args = args"
    using Cons.prems by (intro push_settled_id) auto
  then show ?case using Cons by auto
qed

lemma fold_push_idem:
  "distinct (map fst opts) \<Longrightarrow> JBool False \<notin> snd ` set opts \<Longrightarrow>
   fold merge_entry_push opts (fold merge_entry_push opts args) = fold merge_entry_push opts args"
  by (intro fold_push_settled_id ballI settled_fold_push_all) auto

subsection \<open>Entries that unshift\<close>

lemma settled_unshift_same:
  "snd kv \<noteq> JBool False \<Longrightarrow> settled (merge_entry_unshift kv args) kv"
proof (cases "find_arg (fst kv) args")
  case None
  then show ?thesis
    by (simp add: settled_def merge_entry_unshift_def find_arg_Cons)
next
  case (Some a)
  assume "snd kv \<noteq> JBool False"
  then show ?thesis
    using Some assigned_is_settled [OF Some] by (simp add: merge_entry_unshift_def)
qed

lemma settled_unshift_other:
  "fst kv' \<noteq> fst kv \<Longrightarrow> settled args kv \<Longrightarrow> settled (merge_entry_unshift kv' args) kv"
  by (auto simp: settled_def merge_entry_unshift_def find_arg_drop_flag_other
        find_arg_Cons find_arg_Nil find_arg_assign_first_other split: option.splits)

lemma unshift_settled_id:
  "settled args kv \<Longrightarrow> snd kv \<noteq> JBool False \<Longrightarrow> merge_entry_unshift kv args = args"
  by (auto simp: settled_def merge_entry_unshift_def assign_first_settled)

lemma settled_fold_unshift_other:
  "fst kv \<notin> fst ` set opts \<Longrightarrow> settled args kv
   \<Longrightarrow> settled (fold merge_entry_unshift opts args) kv"
proof (induction opts arbitrary: args)
  case Nil
  then show ?case by simp
next
  case (Cons a opts)
  have "settled (merge_entry_unshift a args) kv"
    using Cons.prems by (intro settled_unshift_other) auto
  then show ?case using Cons by auto
qed

lemma settled_fold_unshift_all:
  "distinct (map fst opts) \<Longrightarrow> JBool False \<notin> snd ` set opts \<Longrightarrow> kv \<in> set opts
   \<Longrightarrow> settled (fold merge_entry_unshift opts args) kv"
proof (induction opts arbitrary: args)
  case Nil
  then show ?case by simp
next
  case (Cons a opts)
  show ?case
  proof (cases "kv = a")
    case True
    have "settled (merge_entry_unshift a args) a"
      using Cons.prems(2) by (intro settled_unshift_same) auto
    then show ?thesis
      using True Cons.prems(1) by (auto intro: settled_fold_unshift_other)
  next
    case False
    then show ?thesis using Cons by auto
  qed
qed

lemma fold_unshift_settled_id:
  "\<forall>kv \<in> set opts. settled args kv \<Longrightarrow> JBool False \<notin> snd ` set opts
   \<Longrightarrow> fold merge_entry_unshift opts args = args"
proof (induction opts)
  case Nil
  then show ?case by simp
next
  case (Cons a opts)
  have "merge_entry_unshift a args = args"
    using Cons.prems by (intro unshift_settled_id) auto
  then show ?case using Cons by auto
qed

lemma fold_unshift_idem:
  "distinct (map fst opts) \<Longrightarrow> JBool False \<notin> snd ` set opts \<Longrightarrow>
   fold merge_entry_unshift opts (fold merge_entry_unshift opts args)
     = fold merge_entry_unshift opts args"
  by (intro fold_unshift_settled_id ballI settled_fold_unshift_all) auto

text \<open>The legacy string of the documentation parses to the mapping it stands for.\<close>

lemma parse_option_string_example:
  "parse_option_string ''-vcodec copy -g 30'' = [(''-vcodec'', JStr ''copy''), (''-g'', JStr ''30'')]"
  by (simp add: parse_option_string_def fromEntries_def)

text \<open>
  Every mapping parsed from a legacy string has distinct flags and no removal marker.
\<close>

lemma fst_set_obj_set: "fst ` set (obj_set k v ps) = insert k (fst ` set ps)"
  by (induction ps) auto

lemma distinct_obj_set: "distinct (map fst ps) \<Longrightarrow> distinct (map fst (obj_set k v ps))"
  by (induction ps) (auto simp: fst_set_obj_set)

lemma snd_set_obj_set: "snd ` set (obj_set k v ps) \<subseteq> insert v (snd ` set ps)"
  by (induction ps) auto

lemma fold_entries_invariant:
  "distinct (map fst obj) \<and> JBool False \<notin> snd ` set obj \<Longrightarrow>
   distinct (map fst (fold (\<lambda>entry obj. case entry of
               [] \<Rightarrow> obj_set ''undefined'' JUndefined obj
             | [k] \<Rightarrow> obj_set k JUndefined obj
             | k # v # _ \<Rightarrow> obj_set k (JStr v) obj) entries obj))
   \<and> JBool False \<notin> snd ` set (fold (\<lambda>entry obj. case entry of
               [] \<Rightarrow> obj_set ''undefined'' JUndefined obj
             | [k] \<Rightarrow> obj_set k JUndefined obj
             | k # v # _ \<Rightarrow> obj_set k (JStr v) obj) entries obj)"
proof (induction entries arbitrary: obj)
  case Nil
  then show ?case by simp
next
  case (Cons entry entries)
  have "distinct (map fst (case entry of
               [] \<Rightarrow> obj_set ''undefined'' JUndefined obj
             | [k] \<Rightarrow> obj_set k JUndefined obj
             | k # v # _ \<Rightarrow> obj_set k (JStr v) obj))
      \<and> JBool False \<notin> snd ` set (case entry of
               [] \<Rightarrow> obj_set ''undefined'' JUndefined obj
             | [k] \<Rightarrow> obj_set k JUndefined obj
             | k # v # _ \<Rightarrow> obj_set k (JStr v) obj)"
    using Cons.prems snd_set_obj_set [of _ _ obj]
    by (auto simp: distinct_obj_set split: list.splits)
  from Cons.IH [OF this] show ?case by simp
qed

lemma parse_option_string_wellformed:
  "distinct (map fst (parse_option_string str))
   \<and> JBool False \<notin> snd ` set (parse_option_string str)"
  unfolding parse_option_string_def fromEntries_def
  by (rule fold_entries_invariant) simp

text \<open>
  For an override map none of whose values is the boolean \<^verbatim>\<open>false\<close> (its keys are
  distinct, being the properties of one object), merging twice into a source, video or
  audio group gives the same group as merging once.
\<close>

lemma merge_idempotent_without_removal:
  assumes "distinct (map fst options)" and "JBool False \<notin> snd ` set options"
  shows "mergeSourceOptions options (mergeSourceOptions options args)
           = mergeSourceOptions options args
       \<and> mergeVideoOptions options (mergeVideoOptions options args)
           = mergeVideoOptions options args
       \<and> mergeAudioOptions options (mergeAudioOptions options args)
           = mergeAudioOptions options args"
  using assms
  by (simp add: mergeSourceOptions_def mergeVideoOptions_def mergeAudioOptions_def
        fold_push_idem fold_unshift_idem)

lemma merge_idempotent_example:
  "distinct (map fst [(''-vcodec'', JStr ''copy''), (''-g'', JStr ''30'')])
   \<and> JBool False \<notin> snd ` set [(''-vcodec'', JStr ''copy''), (''-g'', JStr ''30'')]
   \<and> mergeVideoOptions [(''-vcodec'', JStr ''copy''), (''-g'', JStr ''30'')]
         [(''-map'', [JStr ''0:0'']), (''-vcodec'', [JStr ''libx264''])]
       = [(''-map'', [JStr ''0:0'']), (''-vcodec'', [JStr ''copy'']), (''-g'', [JStr ''30''])]
   \<and> mergeVideoOptions [(''-vcodec'', JStr ''copy''), (''-g'', JStr ''30'')]
         (mergeVideoOptions [(''-vcodec'', JStr ''copy''), (''-g'', JStr ''30'')]
            [(''-map'', [JStr ''0:0'']), (''-vcodec'', [JStr ''libx264''])])
       = [(''-map'', [JStr ''0:0'']), (''-vcodec'', [JStr ''copy'']), (''-g'', [JStr ''30''])]"
proof -
  have d: "distinct (map fst [(''-vcodec'', JStr ''copy''), (''-g'', JStr ''30'')])"
    by simp
  have n: "JBool False \<notin> snd ` set [(''-vcodec'', JStr ''copy''), (''-g'', JStr ''30'')]"
    by simp
  have once: "mergeVideoOptions [(''-vcodec'', JStr ''copy''), (''-g'', JStr ''30'')]
         [(''-map'', [JStr ''0:0'']), (''-vcodec'', [JStr ''libx264''])]
       = [(''-map'', [JStr ''0:0'']), (''-vcodec'', [JStr ''copy'']), (''-g'', [JStr ''30''])]"
    by (simp add: mergeVideoOptions_def merge_entry_push_def find_arg_def)
  show ?thesis
    using d n once
      merge_idempotent_without_removal [OF d n,
        of "[(''-map'', [JStr ''0:0'']), (''-vcodec'', [JStr ''libx264''])]"]
    by simp
qed

section \<open>Claim C3: merging an override map twice\<close>

text \<open>
  C3: merging an override map into an argument group is idempotent, removal markers
  included. The code breaks this where the removal marker meets an absent flag: the
  branch for a flag that is not in the group pushes \<^verbatim>\<open>[key, false]\<close> instead of doing
  nothing. Merging \<^verbatim>\<open>{'-tune': false}\<close> into a group that holds \<^verbatim>\<open>-tune\<close> gives the empty
  group once and \<^verbatim>\<open>['-tune', false]\<close> twice; merging it into a group without \<^verbatim>\<open>-tune\<close>
  pushes \<^verbatim>\<open>['-tune', false]\<close> once and removes it again the second time. A single
  request meets the same branch when hardware acceleration has dropped \<^verbatim>\<open>-tune\<close> before
  the video options are merged.
\<close>

theorem removal_marker_breaks_idempotence:
  "mergeVideoOptions [(''-tune'', JBool False)] [(''-tune'', [JStr ''zerolatency''])] = []
   \<and> mergeVideoOptions [(''-tune'', JBool False)]
         (mergeVideoOptions [(''-tune'', JBool False)] [(''-tune'', [JStr ''zerolatency''])])
       = [(''-tune'', [JBool False])]
   \<and> mergeVideoOptions [(''-tune'', JBool False)] [(''-map'', [JStr ''0:0''])]
       = [(''-map'', [JStr ''0:0'']), (''-tune'', [JBool False])]
   \<and> mergeVideoOptions [(''-tune'', JBool False)]
         (mergeVideoOptions [(''-tune'', JBool False)] [(''-map'', [JStr ''0:0''])])
       = [(''-map'', [JStr ''0:0''])]
   \<and> find_arg ''-tune''
         (videoArgs (projr (build_args hwaccel_camera example_session (Some example_audio)
                              (choose_rates hwaccel_camera example_video example_audio))))
       = Some (''-tune'', [JBool False])"
proof -
  have 1: "mergeVideoOptions [(''-tune'', JBool False)] [(''-tune'', [JStr ''zerolatency''])] = []"
    by (simp add: mergeVideoOptions_def merge_entry_push_def find_arg_def drop_flag_def)
  have 2: "mergeVideoOptions [(''-tune'', JBool False)] [] = [(''-tune'', [JBool False])]"
    by (simp add: mergeVideoOptions_def merge_entry_push_def find_arg_def drop_flag_def)
  have 3: "mergeVideoOptions [(''-tune'', JBool False)] [(''-map'', [JStr ''0:0''])]
       = [(''-map'', [JStr ''0:0'']), (''-tune'', [JBool False])]"
    by (simp add: mergeVideoOptions_def merge_entry_push_def find_arg_def drop_flag_def)
  have 4: "mergeVideoOptions [(''-tune'', JBool False)]
        [(''-map'', [JStr ''0:0'']), (''-tune'', [JBool False])] = [(''-map'', [JStr ''0:0''])]"
    by (simp add: mergeVideoOptions_def merge_entry_push_def find_arg_def drop_flag_def)
  have 5: "find_arg ''-tune''
         (videoArgs (projr (build_args hwaccel_camera example_session (Some example_audio)
                              (choose_rates hwaccel_camera example_video example_audio))))
       = Some (''-tune'', [JBool False])"
    by (simp add: build_args_def initial_args_def example_session_def docker_clamp_def
        hwaccel_camera_def resolved_camera_def example_camera_def new_camera_def custom_binary_def
        truthy_string_def find_arg_def opus_step_def example_audio_def camera_options_step_def
        hwaccel_step_def drop_flag_def given_options_def mergeVideoOptions_def
        merge_entry_push_def Let_def)
  show ?thesis
    using 1 2 3 4 5 by simp
qed

section \<open>Claim C6: the range of a generated SSRC\<close>

lemma uint_byte_bounds: "0 \<le> uint (b :: 8 word) \<and> uint b \<le> 255"
proof -
  have "uint b < 2 ^ 8" using uint_bounded [of b] by simp
  then show ?thesis by simp
qed

lemma ssrc_bounds:
  "0 \<le> uint (a :: 8 word) * 2 ^ 16 + uint (b :: 8 word) * 2 ^ 8 + uint (c :: 8 word)
   \<and> uint a * 2 ^ 16 + uint b * 2 ^ 8 + uint c < 0x01000000"
  using uint_byte_bounds [of a] uint_byte_bounds [of b] uint_byte_bounds [of c] by simp

lemma generate_ssrc_value:
  "generate_ssrc e =
     (Inr (uint (e 1) * 2 ^ 16 + uint (e 2) * 2 ^ 8 + uint (e 3)), \<lambda>i. e (i + 4))"
proof -
  have m: "map e [0..<4] = [e 0, e 1, e 2, e 3]"
    by (simp add: upt_rec numeral_2_eq_2 numeral_3_eq_3)
  have b: "uint (e 1) * 2 ^ 16 + uint (e 2) * 2 ^ 8 + uint (e 3) < 2 ^ 31"
    using ssrc_bounds [of "e 1" "e 2" "e 3"] by simp
  show ?thesis
    using b by (simp add: generate_ssrc_def randomBytes_def m readInt32BE_def)
qed

lemma prepareStream_returns:
  "\<exists>cam' response e'.
         prepareStream cam e myIPAddress isV4 request
           = ((cam', [Callback (Succeeded (Prepared response))], Returned), e')
       \<and> (\<forall>m. rsp_video response = Some m \<longrightarrow> 0 \<le> rsp_ssrc m \<and> rsp_ssrc m < 0x01000000)
       \<and> (\<forall>m. rsp_audio response = Some m \<longrightarrow> 0 \<le> rsp_ssrc m \<and> rsp_ssrc m < 0x01000000)
       \<and> (\<exists>sessionInfo. pendingSessions cam' (prep_sessionID request) = Some sessionInfo
             \<and> video_ssrc sessionInfo = map_option rsp_ssrc (rsp_video response)
             \<and> audio_ssrc sessionInfo = map_option rsp_ssrc (rsp_audio response))"
proof (cases "prep_video request")
  case None
  note v = None
  show ?thesis
  proof (cases "prep_audio request")
    case None
    then show ?thesis using v by (simp add: prepareStream_def prepare_media_def)
  next
    case (Some a)
    then show ?thesis using v ssrc_bounds [of "e 1" "e 2" "e 3"]
      by (simp add: prepareStream_def prepare_media_def generate_ssrc_value)
  qed
next
  case (Some vr)
  note v = Some
  show ?thesis
  proof (cases "prep_audio request")
    case None
    then show ?thesis using v ssrc_bounds [of "e 1" "e 2" "e 3"]
      by (simp add: prepareStream_def prepare_media_def generate_ssrc_value)
  next
    case (Some a)
    then show ?thesis
      using v ssrc_bounds [of "e 1" "e 2" "e 3"] ssrc_bounds [of "e 5" "e 6" "e 7"]
      by (simp add: prepareStream_def prepare_media_def generate_ssrc_value)
  qed
qed

lemma randomBytes_4: "randomBytes 4 e = ([e 0, e 1, e 2, e 3], \<lambda>i. e (i + 4))"
  by (simp add: randomBytes_def upt_rec numeral_2_eq_2 numeral_3_eq_3)

lemma readInt32BE_zeroed:
  "readInt32BE ([b0, b1, b2, b3][0 := 0]) 0 = Inr (uint b1 * 2 ^ 16 + uint b2 * 2 ^ 8 + uint b3)"
  using ssrc_bounds [of b1 b2 b3] by (simp add: readInt32BE_def)

lemma prepare_media_value:
  "prepare_media src e =
     (case src of
        None \<Rightarrow> (Inr None, e)
      | Some m \<Rightarrow>
          (Inr (Some \<lparr> rsp_port = src_port m,
                        rsp_ssrc = uint (e 1) * 2 ^ 16 + uint (e 2) * 2 ^ 8 + uint (e 3),
                        rsp_srtp_key = src_srtp_key m, rsp_srtp_salt = src_srtp_salt m \<rparr>),
           \<lambda>i. e (i + 4)))"
  by (simp add: prepare_media_def generate_ssrc_value split: option.splits)

lemma prepareStream_value:
  "prepareStream cam e myIPAddress isV4 request =
     (let ea = snd (prepare_media (prep_video request) e);
          response_video = map_option (\<lambda>m.
            \<lparr> rsp_port = src_port m,
              rsp_ssrc = uint (e 1) * 2 ^ 16 + uint (e 2) * 2 ^ 8 + uint (e 3),
              rsp_srtp_key = src_srtp_key m, rsp_srtp_salt = src_srtp_salt m \<rparr>)
            (prep_video request);
          response_audio = map_option (\<lambda>m.
            \<lparr> rsp_port = src_port m,
              rsp_ssrc = uint (ea 1) * 2 ^ 16 + uint (ea 2) * 2 ^ 8 + uint (ea 3),
              rsp_srtp_key = src_srtp_key m, rsp_srtp_salt = src_srtp_salt m \<rparr>)
            (prep_audio request)
      in ((cam \<lparr> pendingSessions := (pendingSessions cam)(prep_sessionID request \<mapsto>
                   \<lparr> address = targetAddress request,
                     video_port = map_option rsp_port response_video,
                     video_srtp = map_option (\<lambda>m. rsp_srtp_key m @ rsp_srtp_salt m) response_video,
                     video_ssrc = map_option rsp_ssrc response_video,
                     audio_port = map_option rsp_port response_audio,
                     audio_srtp = map_option (\<lambda>m. rsp_srtp_key m @ rsp_srtp_salt m) response_audio,
                     audio_ssrc = map_option rsp_ssrc response_audio \<rparr>) \<rparr>,
           [Callback (Succeeded (Prepared
              \<lparr> rsp_video = response_video, rsp_audio = response_audio,
                rsp_address = myIPAddress, rsp_type = (if isV4 then ''v4'' else ''v6'') \<rparr>))],
           Returned),
          snd (prepare_media (prep_audio request) ea)))"
  by (cases "prep_video request"; cases "prep_audio request")
     (simp_all add: prepareStream_def prepare_media_value Let_def)

lemma mixed_entropy_bytes:
  "mixed_entropy 0 = 0x9C \<and> mixed_entropy 1 = 0x14 \<and> mixed_entropy 2 = 0x25
   \<and> mixed_entropy 3 = 0x36 \<and> mixed_entropy 5 = 0x58 \<and> mixed_entropy 6 = 0x69
   \<and> mixed_entropy 7 = 0x7A"
  by (simp add: mixed_entropy_def)

text \<open>
  C6: every SSRC that \<^verbatim>\<open>prepareStream\<close> returns, for video and for audio alike, is what
  \<^verbatim>\<open>readInt32BE\<close> reads, most significant byte first, from four bytes drawn from the
  entropy of which the first was overwritten with zero: the video one from the next four
  bytes, the audio one from the four after those (from the next four when no video is
  asked for). So it is the 24-bit number of the last three of its bytes and lies in
  \<open>0 \<le> ssrc < 0x01000000\<close>. A media type has an SSRC exactly when the request asks for
  it, the entropy moves on by four bytes for each, and the pending session stores the
  same numbers.
\<close>

theorem prepareStream_ssrc_range:
  "generate_ssrc e = (readInt32BE ((fst (randomBytes 4 e))[0 := 0]) 0, snd (randomBytes 4 e))
   \<and> randomBytes 4 e = ([e 0, e 1, e 2, e 3], \<lambda>i. e (i + 4))
   \<and> readInt32BE ([e 0, e 1, e 2, e 3][0 := 0]) 0
       = Inr (uint (e 1) * 2 ^ 16 + uint (e 2) * 2 ^ 8 + uint (e 3))
   \<and> (\<exists>cam' response e'.
         prepareStream cam e myIPAddress isV4 request
           = ((cam', [Callback (Succeeded (Prepared response))], Returned), e')
       \<and> (rsp_video response = None) = (prep_video request = None)
       \<and> (rsp_audio response = None) = (prep_audio request = None)
       \<and> (\<forall>m. rsp_video response = Some m \<longrightarrow>
              Inr (rsp_ssrc m) = fst (generate_ssrc e)
            \<and> 0 \<le> rsp_ssrc m \<and> rsp_ssrc m < 0x01000000)
       \<and> (\<forall>m. rsp_audio response = Some m \<longrightarrow>
              Inr (rsp_ssrc m)
                = fst (generate_ssrc (if prep_video request = None then e else (\<lambda>i. e (i + 4))))
            \<and> 0 \<le> rsp_ssrc m \<and> rsp_ssrc m < 0x01000000)
       \<and> e' = (\<lambda>i. e (i + ((if prep_video request = None then 0 else 4)
                               + (if prep_audio request = None then 0 else 4))))
       \<and> (\<exists>sessionInfo. pendingSessions cam' (prep_sessionID request) = Some sessionInfo
             \<and> video_ssrc sessionInfo = map_option rsp_ssrc (rsp_video response)
             \<and> audio_ssrc sessionInfo = map_option rsp_ssrc (rsp_audio response)))"
proof (intro conjI)
  show "generate_ssrc e = (readInt32BE ((fst (randomBytes 4 e))[0 := 0]) 0, snd (randomBytes 4 e))"
    by (simp add: generate_ssrc_def case_prod_beta)
next
  show "randomBytes 4 e = ([e 0, e 1, e 2, e 3], \<lambda>i. e (i + 4))"
    by (rule randomBytes_4)
next
  show "readInt32BE ([e 0, e 1, e 2, e 3][0 := 0]) 0
       = Inr (uint (e 1) * 2 ^ 16 + uint (e 2) * 2 ^ 8 + uint (e 3))"
    by (rule readInt32BE_zeroed)
next
  show "\<exists>cam' response e'.
         prepareStream cam e myIPAddress isV4 request
           = ((cam', [Callback (Succeeded (Prepared response))], Returned), e')
       \<and> (rsp_video response = None) = (prep_video request = None)
       \<and> (rsp_audio response = None) = (prep_audio request = None)
       \<and> (\<forall>m. rsp_video response = Some m \<longrightarrow>
              Inr (rsp_ssrc m) = fst (generate_ssrc e)
            \<and> 0 \<le> rsp_ssrc m \<and> rsp_ssrc m < 0x01000000)
       \<and> (\<forall>m. rsp_audio response = Some m \<longrightarrow>
              Inr (rsp_ssrc m)
                = fst (generate_ssrc (if prep_video request = None then e else (\<lambda>i. e (i + 4))))
            \<and> 0 \<le> rsp_ssrc m \<and> rsp_ssrc m < 0x01000000)
       \<and> e' = (\<lambda>i. e (i + ((if prep_video request = None then 0 else 4)
                               + (if prep_audio request = None then 0 else 4))))
       \<and> (\<exists>sessionInfo. pendingSessions cam' (prep_sessionID request) = Some sessionInfo
             \<and> video_ssrc sessionInfo = map_option rsp_ssrc (rsp_video response)
             \<and> audio_ssrc sessionInfo = map_option rsp_ssrc (rsp_audio response))"
  proof (cases "prep_video request")
    case None
    note v = None
    show ?thesis
    proof (cases "prep_audio request")
      case None
      then show ?thesis using v
        by (simp add: prepareStream_value prepare_media_value Let_def)
    next
      case (Some a)
      then show ?thesis using v ssrc_bounds [of "e 1" "e 2" "e 3"]
        by (simp add: prepareStream_value prepare_media_value Let_def generate_ssrc_value)
    qed
  next
    case (Some vr)
    note v = Some
    show ?thesis
    proof (cases "prep_audio request")
      case None
      then show ?thesis using v ssrc_bounds [of "e 1" "e 2" "e 3"]
        by (simp add: prepareStream_value prepare_media_value Let_def generate_ssrc_value)
    next
      case (Some a)
      then show ?thesis
        using v ssrc_bounds [of "e 1" "e 2" "e 3"] ssrc_bounds [of "e 5" "e 6" "e 7"]
        by (simp add: prepareStream_value prepare_media_value Let_def generate_ssrc_value
            add.commute add.assoc)
    qed
  qed
qed

theorem prepareStream_ssrc_range_witness:
  "fst (randomBytes 4 mixed_entropy) = [0x9C, 0x14, 0x25, 0x36]
   \<and> readInt32BE [0x9C, 0x14, 0x25, 0x36] 0 = Inr (- 1676401354)
   \<and> fst (generate_ssrc mixed_entropy) = Inr 1320246
   \<and> callbacks (fst (snd (fst (prepareStream example_camera mixed_entropy ''192.168.1.20'' True
         example_prepare))))
       = [Succeeded (Prepared
           \<lparr> rsp_video = Some \<lparr> rsp_port = 50000, rsp_ssrc = 1320246,
                                rsp_srtp_key = [1, 2, 3], rsp_srtp_salt = [4] \<rparr>,
             rsp_audio = Some \<lparr> rsp_port = 50002, rsp_ssrc = 5794170,
                                rsp_srtp_key = [5, 6, 7], rsp_srtp_salt = [8] \<rparr>,
             rsp_address = ''192.168.1.20'', rsp_type = ''v4'' \<rparr>)]
   \<and> (0::int) \<le> 1320246 \<and> (1320246::int) < 0x01000000
   \<and> (0::int) \<le> 5794170 \<and> (5794170::int) < 0x01000000"
proof -
  note t = prepareStream_ssrc_range
      [of mixed_entropy example_camera "''192.168.1.20''" True example_prepare]
  have b: "fst (randomBytes 4 mixed_entropy) = [0x9C, 0x14, 0x25, 0x36]"
    using t mixed_entropy_bytes by simp
  have r: "readInt32BE [0x9C, 0x14, 0x25, 0x36] 0 = Inr (- 1676401354)"
    by (simp add: readInt32BE_def)
  have g: "fst (generate_ssrc mixed_entropy) = Inr 1320246"
    using t mixed_entropy_bytes by simp
  have c: "callbacks (fst (snd (fst (prepareStream example_camera mixed_entropy ''192.168.1.20'' True
         example_prepare))))
       = [Succeeded (Prepared
           \<lparr> rsp_video = Some \<lparr> rsp_port = 50000, rsp_ssrc = 1320246,
                                rsp_srtp_key = [1, 2, 3], rsp_srtp_salt = [4] \<rparr>,
             rsp_audio = Some \<lparr> rsp_port = 50002, rsp_ssrc = 5794170,
                                rsp_srtp_key = [5, 6, 7], rsp_srtp_salt = [8] \<rparr>,
             rsp_address = ''192.168.1.20'', rsp_type = ''v4'' \<rparr>)]"
    using mixed_entropy_bytes
    by (simp add: prepareStream_value prepare_media_value example_prepare_def Let_def)
  show ?thesis
    using b r g c by simp
qed

section \<open>Claim C8: how the exit of the transcoder is handled\<close>

text \<open>The flag \<^verbatim>\<open>started\<close> is set exactly when a line of stderr output has arrived.\<close>

lemma started_after_events:
  "snd (fst (stream_events sid evs (cam, s))) = (s \<or> (\<exists>d. StderrData d \<in> set evs))"
proof (induction evs arbitrary: s)
  case Nil
  then show ?case by simp
next
  case (Cons ev evs)
  show ?case
  proof (cases ev)
    case (StderrData d)
    then show ?thesis using Cons [of True] Cons [of s]
      by (auto simp: on_stderr_data_def split: prod.splits)
  next
    case (ProcError e)
    then show ?thesis using Cons [of s]
      by (auto simp: on_error_def split: prod.splits)
  next
    case (ProcClose code)
    then show ?thesis using Cons [of s]
      by (auto simp: on_close_def split: prod.splits option.splits)
  qed
qed

text \<open>
  C8: on the \<^verbatim>\<open>'close'\<close> event, the codes 0 and 255 and the null code leave everything as
  it is and call nothing; any other code calls the start request's callback with an
  error while no stderr output has arrived, and forces the streaming session to stop,
  without a callback, once output has arrived.
\<close>

theorem close_exit_codes:
  "(code = None \<or> code = Some 0 \<or> code = Some 255
      \<longrightarrow> on_close sid code (cam, started) = ((cam, started), []))
   \<and> (c \<noteq> 0 \<and> c \<noteq> 255
      \<longrightarrow> on_close sid (Some c) (cam, False)
          = ((cam, False),
             [Callback (Failed (JsError (''Error: FFmpeg exited with code '' @ str_of_int c)))]))
   \<and> (c \<noteq> 0 \<and> c \<noteq> 255
      \<longrightarrow> on_close sid (Some c) (cam, True) = ((cam, True), [ForceStopStreamingSession sid]))
   \<and> snd (fst (stream_events sid evs (cam, False))) = (\<exists>d. StderrData d \<in> set evs)"
  by (auto simp: on_close_def started_after_events)

theorem close_exit_codes_witness:
  "on_close ''s1'' (Some 255) (example_camera, False) = ((example_camera, False), [])
   \<and> (1::int) \<noteq> 0 \<and> (1::int) \<noteq> 255
   \<and> on_close ''s1'' (Some 1) (example_camera, False)
       = ((example_camera, False), [Callback (Failed (JsError ''Error: FFmpeg exited with code 1''))])
   \<and> on_close ''s1'' (Some 1) (example_camera, True)
       = ((example_camera, True), [ForceStopStreamingSession ''s1''])
   \<and> snd (fst (stream_events ''s1'' [StderrData ''frame= 1''] (example_camera, False)))"
  using close_exit_codes [where code = "Some 255" and sid = "''s1''" and cam = example_camera
      and started = False and c = 1 and evs = "[StderrData ''frame= 1'']"]
  by (simp add: str_of_int_def str_of_nat.simps digit_char_def)

section \<open>Claim C9: the retry delay of the event subscription\<close>







section \<open>Claim C10: what the docker width limit changes\<close>

lemma length_assign_first: "length (assign_first k v as) = length as"
  by (induction as) auto

lemma assign_first_frame:
  "i < length as \<Longrightarrow> fst (as ! i) \<noteq> k \<Longrightarrow> assign_first k v as ! i = as ! i"
proof (induction as arbitrary: i)
  case Nil
  then show ?case by simp
next
  case (Cons a as)
  then show ?case by (cases i) auto
qed

lemma docker_clamp_frame:
  assumes "docker_clamp cam r b = Inr b'"
  shows "sourceArgs b' = sourceArgs b \<and> audioArgs b' = audioArgs b
       \<and> length (videoArgs b') = length (videoArgs b)
       \<and> (\<forall>i < length (videoArgs b). fst (videoArgs b ! i) \<noteq> ''-vf''
             \<longrightarrow> videoArgs b' ! i = videoArgs b ! i)"
  using assms
  by (auto simp: docker_clamp_def Let_def length_assign_first assign_first_frame
        split: if_splits option.splits)

text \<open>
  C10: under docker with no custom binary, the limit to 720 applied to the arguments as
  first built leaves the source and audio groups alone and changes the video group
  only at its \<^verbatim>\<open>-vf\<close> argument, which gets the limited width; the \<^verbatim>\<open>x=\<close> parameter of the
  input URL keeps the width that was asked for.
\<close>

theorem docker_clamp_rewrites_only_vf:
  assumes "inDocker cam" and "\<not> custom_binary (cameraOptions cam)"
    and "initial_args cam sessionInfo (choose_rates cam video audio) = Inr b0"
  shows "\<exists>b1. docker_clamp cam (choose_rates cam video audio) b0 = Inr b1
       \<and> sourceArgs b1 = sourceArgs b0 \<and> audioArgs b1 = audioArgs b0
       \<and> length (videoArgs b1) = length (videoArgs b0)
       \<and> (\<forall>i < length (videoArgs b0). fst (videoArgs b0 ! i) \<noteq> ''-vf''
             \<longrightarrow> videoArgs b1 ! i = videoArgs b0 ! i)
       \<and> find_arg ''-vf'' (videoArgs b1)
           = Some (''-vf'', [JStr (''scale=''
                @ str_of_int (min (case vi_width video of None \<Rightarrow> 1920 | Some w \<Rightarrow> w) 720)
                @ '':-2'')])
       \<and> find_arg ''-i'' (sourceArgs b1)
           = Some (''-i'', [JStr (''https://'' @ tpl_string (serverIpAddress cam) @ ''/v1/''
                @ uuid (cameraDetails cam) @ ''/flv?x=''
                @ str_of_int (case vi_width video of None \<Rightarrow> 1920 | Some w \<Rightarrow> w)
                @ ''&audioEncoding=AAC'')])"
proof -
  let ?r = "choose_rates cam video audio"
  have w: "width ?r = (case vi_width video of None \<Rightarrow> 1920 | Some w \<Rightarrow> w)"
    by (simp add: choose_rates_def Let_def)
  obtain vsrtp asrtp where
    v: "video_srtp sessionInfo = Some vsrtp" and a: "audio_srtp sessionInfo = Some asrtp"
    using assms(3) by (auto simp: initial_args_def split: option.splits)
  have vf0: "find_arg ''-vf'' (videoArgs b0)
               = Some (''-vf'', [JStr (''scale='' @ str_of_int (width ?r) @ '':-2'')])"
    using assms(3) v a by (auto simp: initial_args_def find_arg_def)
  have i0: "find_arg ''-i'' (sourceArgs b0) = Some (''-i'', [JStr (source_url cam (width ?r))])"
    using assms(3) v a by (auto simp: initial_args_def find_arg_def)
  define b1 where "b1 = b0 \<lparr> videoArgs :=
      assign_first ''-vf'' (JStr (''scale='' @ str_of_int (min (width ?r) 720) @ '':-2''))
        (videoArgs b0) \<rparr>"
  have c: "docker_clamp cam ?r b0 = Inr b1"
    using assms(1,2) vf0 by (simp add: docker_clamp_def Let_def b1_def)
  have vf1: "find_arg ''-vf'' (videoArgs b1)
               = Some (''-vf'', [JStr (''scale='' @ str_of_int (min (width ?r) 720) @ '':-2'')])"
    using find_arg_assign_first_same [OF vf0] by (simp add: b1_def)
  have i1: "find_arg ''-i'' (sourceArgs b1) = Some (''-i'', [JStr (source_url cam (width ?r))])"
    using i0 by (simp add: b1_def)
  show ?thesis
    using c docker_clamp_frame [OF c] vf1 i1 w by (simp add: source_url_def)
qed

theorem docker_clamp_rewrites_only_vf_witness:
  "inDocker resolved_camera \<and> \<not> custom_binary (cameraOptions resolved_camera)
   \<and> (\<exists>b0 b1.
         initial_args resolved_camera example_session
           (choose_rates resolved_camera example_video example_audio) = Inr b0
       \<and> docker_clamp resolved_camera
           (choose_rates resolved_camera example_video example_audio) b0 = Inr b1
       \<and> find_arg ''-vf'' (videoArgs b0) = Some (''-vf'', [JStr ''scale=1280:-2''])
       \<and> find_arg ''-vf'' (videoArgs b1) = Some (''-vf'', [JStr ''scale=720:-2''])
       \<and> find_arg ''-i'' (sourceArgs b1)
           = Some (''-i'', [JStr ''https://203.0.113.7/v1/a1b2c3/flv?x=1280&audioEncoding=AAC''])
       \<and> sourceArgs b1 = sourceArgs b0 \<and> audioArgs b1 = audioArgs b0)"
proof -
  let ?r = "choose_rates resolved_camera example_video example_audio"
  let ?b0 = "projr (initial_args resolved_camera example_session ?r)"
  have d: "inDocker resolved_camera"
    by (simp add: resolved_camera_def example_camera_def new_camera_def)
  have c: "\<not> custom_binary (cameraOptions resolved_camera)"
    by (simp add: resolved_camera_def example_camera_def new_camera_def custom_binary_def)
  have i: "initial_args resolved_camera example_session ?r = Inr ?b0"
    by (simp add: initial_args_def example_session_def)
  have w: "str_of_int 1280 = ''1280'' \<and> str_of_int 720 = ''720''"
    by (simp add: str_of_int_def str_of_nat.simps digit_char_def)
  have vf0: "find_arg ''-vf'' (videoArgs ?b0) = Some (''-vf'', [JStr ''scale=1280:-2''])"
    using w by (simp add: initial_args_def example_session_def find_arg_def choose_rates_def Let_def
        example_video_def)
  obtain b1 where b1: "docker_clamp resolved_camera ?r ?b0 = Inr b1"
    and rest: "sourceArgs b1 = sourceArgs ?b0" "audioArgs b1 = audioArgs ?b0"
      "find_arg ''-vf'' (videoArgs b1)
         = Some (''-vf'', [JStr (''scale=''
              @ str_of_int (min (case vi_width example_video of None \<Rightarrow> 1920 | Some w \<Rightarrow> w) 720)
              @ '':-2'')])"
      "find_arg ''-i'' (sourceArgs b1)
         = Some (''-i'', [JStr (''https://'' @ tpl_string (serverIpAddress resolved_camera) @ ''/v1/''
              @ uuid (cameraDetails resolved_camera) @ ''/flv?x=''
              @ str_of_int (case vi_width example_video of None \<Rightarrow> 1920 | Some w \<Rightarrow> w)
              @ ''&audioEncoding=AAC'')])"
    using docker_clamp_rewrites_only_vf [OF d c i] by blast
  have vf1: "find_arg ''-vf'' (videoArgs b1) = Some (''-vf'', [JStr ''scale=720:-2''])"
    using rest(3) w by (simp add: example_video_def)
  have i1: "find_arg ''-i'' (sourceArgs b1)
      = Some (''-i'', [JStr ''https://203.0.113.7/v1/a1b2c3/flv?x=1280&audioEncoding=AAC''])"
    using rest(4) w
    by (simp add: example_video_def resolved_camera_def example_camera_def new_camera_def
        example_details_def tpl_string_def)
  show ?thesis
    using d c i b1 vf0 vf1 i1 rest(1,2) by blast
qed

section \<open>Facts about start and stop requests\<close>

lemma prepared_session: "pendingSessions prepared_camera ''s1'' = Some example_session"
  by (simp add: prepared_camera_def prepareStream_def prepare_media_def example_prepare_def generate_ssrc_value
      example_entropy_def example_session_def)

lemma exclusive_iff:
  "exclusive cam = (\<forall>x y. pendingSessions cam x = Some y \<longrightarrow> ongoingSessions cam x = None)"
  by (auto simp: exclusive_def disjoint_iff dom_def)

lemma spawn_stream_result:
  "spawn_stream cam sid sessionInfo audio r done = (cam', effs, out) \<Longrightarrow>
     (\<exists>err. out = Threw err \<and> cam' = cam \<and> effs = done)
   \<or> (\<exists>cmd. out = Returned \<and> effs = done @ [Spawn cmd]
          \<and> cam' = cam \<lparr> ongoingSessions := (ongoingSessions cam)(sid \<mapsto> cmd),
                            pendingSessions := (pendingSessions cam)(sid := None) \<rparr>)"
  by (auto simp: spawn_stream_def Let_def split: sum.splits)

lemma resume_start_result:
  assumes "resume_start cam lookup sid sessionInfo audio r = (cam', effs, out)"
  shows "(\<exists>err. out = Threw err \<and> pendingSessions cam' = pendingSessions cam
            \<and> ongoingSessions cam' = ongoingSessions cam \<and> callbacks effs = []
            \<and> (\<forall>cmd. Spawn cmd \<notin> set effs))
       \<or> (\<exists>err. out = Returned \<and> lookup = Inl err
            \<and> \<not> truthy_string (serverIpAddress cam)
            \<and> cam' = cam \<lparr> pendingSessions := (pendingSessions cam)(sid := None) \<rparr>
            \<and> callbacks effs = [Failed err] \<and> (\<forall>cmd. Spawn cmd \<notin> set effs))
       \<or> (\<exists>cmd. out = Returned \<and> effs = [DnsLookup ''media.simplisafe.com'', Spawn cmd]
            \<and> pendingSessions cam' = (pendingSessions cam)(sid := None)
            \<and> ongoingSessions cam' = (ongoingSessions cam)(sid \<mapsto> cmd))"
proof (cases lookup)
  case (Inr ip)
  then show ?thesis
    using assms
      spawn_stream_result [of "cam \<lparr> serverIpAddress := Some ip \<rparr>" sid sessionInfo
        audio r "[DnsLookup ''media.simplisafe.com'']" cam' effs out]
    by (auto simp: resume_start_def)
next
  case (Inl err)
  show ?thesis
  proof (cases "truthy_string (serverIpAddress cam)")
    case True
    then show ?thesis
      using assms Inl
        spawn_stream_result [of cam sid sessionInfo
          audio r "[DnsLookup ''media.simplisafe.com'']" cam' effs out]
      by (auto simp: resume_start_def)
  next
    case False
    then show ?thesis
      using assms Inl by (auto simp: resume_start_def)
  qed
qed

lemma start_stream_result:
  assumes "start_stream cam env sid sessionInfo request = (cam', effs, out)"
  shows "(\<exists>err. out = Threw err \<and> pendingSessions cam' = pendingSessions cam
            \<and> ongoingSessions cam' = ongoingSessions cam \<and> callbacks effs = []
            \<and> (\<forall>cmd. Spawn cmd \<notin> set effs))
       \<or> (\<exists>err. out = Returned \<and> st_dnsLookup env = Inl err
            \<and> \<not> truthy_string (serverIpAddress cam)
            \<and> cam' = cam \<lparr> pendingSessions := (pendingSessions cam)(sid := None) \<rparr>
            \<and> callbacks effs = [Failed err] \<and> (\<forall>cmd. Spawn cmd \<notin> set effs))
       \<or> (\<exists>cmd. out = Returned \<and> effs = [DnsLookup ''media.simplisafe.com'', Spawn cmd]
            \<and> pendingSessions cam' = (pendingSessions cam)(sid := None)
            \<and> ongoingSessions cam' = (ongoingSessions cam)(sid \<mapsto> cmd))"
proof (cases "req_video request")
  case None
  then show ?thesis using assms by (auto simp: start_stream_def)
next
  case (Some video)
  note v = Some
  show ?thesis
  proof (cases "req_audio request")
    case None
    then show ?thesis using assms v by (auto simp: start_stream_def)
  next
    case (Some audio)
    then have "resume_start cam (st_dnsLookup env) sid sessionInfo (Some audio)
        (choose_rates cam video audio) = (cam', effs, out)"
      using assms v by (simp add: start_stream_def)
    from resume_start_result [OF this] show ?thesis .
  qed
qed

lemma exclusive_after_resume_start:
  assumes "exclusive cam"
  shows "exclusive (fst (resume_start cam lookup sid sessionInfo audio r))"
proof -
  obtain cam' effs out where
    r: "resume_start cam lookup sid sessionInfo audio r = (cam', effs, out)"
    by (cases "resume_start cam lookup sid sessionInfo audio r") auto
  from resume_start_result [OF r] show ?thesis
    using assms r by (auto simp: exclusive_iff split: if_splits)
qed

lemma build_args_without_options:
  assumes "cameraOptions cam = None" and "video_srtp sessionInfo = Some vsrtp"
    and "audio_srtp sessionInfo = Some asrtp"
  shows "\<exists>b. build_args cam sessionInfo audio r = Inr b"
  using assms
  by (simp add: build_args_def initial_args_def docker_clamp_def opus_step_def
      camera_options_step_def find_arg_def Let_def)

lemma handle_start_result:
  assumes "req_type request = ''start''" and "req_sessionID request = Some sid"
    and "handleStreamRequest cam env request = (cam', effs, out)"
  shows "(\<exists>err. out = Threw err \<and> pendingSessions cam' = pendingSessions cam
            \<and> ongoingSessions cam' = ongoingSessions cam \<and> callbacks effs = []
            \<and> (\<forall>cmd. Spawn cmd \<notin> set effs))
       \<or> (out = Returned \<and> pendingSessions cam' = (pendingSessions cam)(sid := None)
            \<and> ongoingSessions cam' = ongoingSessions cam
            \<and> (\<forall>cmd. Spawn cmd \<notin> set effs))
       \<or> (\<exists>cmd. out = Returned \<and> effs = [DnsLookup ''media.simplisafe.com'', Spawn cmd]
            \<and> pendingSessions cam' = (pendingSessions cam)(sid := None)
            \<and> ongoingSessions cam' = (ongoingSessions cam)(sid \<mapsto> cmd))"
proof (cases "rate_limited (st_simplisafe env) (st_now env)")
  case True
  then show ?thesis using assms by (auto simp: handleStreamRequest_def)
next
  case False
  note nl = False
  show ?thesis
  proof (cases "pendingSessions cam sid")
    case None
    then show ?thesis using assms nl by (auto simp: handleStreamRequest_def)
  next
    case (Some sessionInfo)
    then have "start_stream cam env sid sessionInfo request = (cam', effs, out)"
      using assms nl by (simp add: handleStreamRequest_def)
    from start_stream_result [OF this] show ?thesis by auto
  qed
qed

lemma exclusive_after_stream_request:
  assumes "exclusive cam"
  shows "exclusive (fst (handleStreamRequest cam env request))"
proof (cases "req_sessionID request")
  case None
  then show ?thesis using assms by (simp add: handleStreamRequest_def)
next
  case (Some sid)
  note s = Some
  obtain cam' effs out where r: "handleStreamRequest cam env request = (cam', effs, out)"
    by (cases "handleStreamRequest cam env request") auto
  show ?thesis
  proof (cases "req_type request = ''start''")
    case True
    from handle_start_result [OF True s r] show ?thesis
      using assms r by (auto simp: exclusive_iff split: if_splits)
  next
    case False
    then show ?thesis
      using assms s by (auto simp: handleStreamRequest_def stop_stream_def exclusive_iff split: if_splits)
  qed
qed

lemma start_spawns:
  assumes "req_type request = ''start''" and "req_sessionID request = Some sid"
    and "\<not> rate_limited (st_simplisafe env) (st_now env)"
    and "pendingSessions cam sid = Some sessionInfo"
    and "req_video request = Some video" and "req_audio request = Some audio"
    and "st_dnsLookup env = Inr ip" and "cameraOptions cam = None"
    and "video_srtp sessionInfo = Some vsrtp" and "audio_srtp sessionInfo = Some asrtp"
  shows "\<exists>cmd. handleStreamRequest cam env request
           = (cam \<lparr> serverIpAddress := Some ip,
                     ongoingSessions := (ongoingSessions cam)(sid \<mapsto> cmd),
                     pendingSessions := (pendingSessions cam)(sid := None) \<rparr>,
              [DnsLookup ''media.simplisafe.com'', Spawn cmd], Returned)"
proof -
  obtain b where "build_args (cam \<lparr> serverIpAddress := Some ip \<rparr>) sessionInfo (Some audio)
      (choose_rates cam video audio) = Inr b"
    using build_args_without_options [of "cam \<lparr> serverIpAddress := Some ip \<rparr>" sessionInfo
      vsrtp asrtp "Some audio" "choose_rates cam video audio"] assms(8,9,10)
    by auto
  then show ?thesis
    using assms by (simp add: handleStreamRequest_def start_stream_def resume_start_def spawn_stream_def Let_def)
qed

lemma example_start_spawns:
  "\<exists>cmd. handleStreamRequest prepared_camera online_env example_start
           = (prepared_camera \<lparr> serverIpAddress := Some ''203.0.113.7'',
                     ongoingSessions := (ongoingSessions prepared_camera)(''s1'' \<mapsto> cmd),
                     pendingSessions := (pendingSessions prepared_camera)(''s1'' := None) \<rparr>,
              [DnsLookup ''media.simplisafe.com'', Spawn cmd], Returned)"
proof -
  have "cameraOptions prepared_camera = None"
    by (simp add: prepared_camera_def prepareStream_def prepare_media_def generate_ssrc_value example_camera_def
        new_camera_def Let_def split: option.splits)
  then show ?thesis
    by (intro start_spawns [where sessionInfo = example_session and video = example_video
          and audio = example_audio and vsrtp = "[1, 2, 3, 4]" and asrtp = "[5, 6, 7, 8]"])
      (simp_all add: example_start_def online_env_def rate_limited_def prepared_session
        example_session_def)
qed

lemma streaming_camera_sessions:
  "pendingSessions streaming_camera ''s1'' = None
   \<and> (\<exists>cmd. ongoingSessions streaming_camera ''s1'' = Some cmd
          \<and> fst (snd (handleStreamRequest prepared_camera online_env example_start))
              = [DnsLookup ''media.simplisafe.com'', Spawn cmd])"
  using example_start_spawns by (auto simp: streaming_camera_def)

lemma start_that_spawns:
  assumes "req_type request = ''start''" and "req_sessionID request = Some sid"
    and "handleStreamRequest cam env request = (cam', effs, out)"
    and "Spawn cmd \<in> set effs"
  shows "out = Returned \<and> effs = [DnsLookup ''media.simplisafe.com'', Spawn cmd]
       \<and> pendingSessions cam' = (pendingSessions cam)(sid := None)
       \<and> ongoingSessions cam' = (ongoingSessions cam)(sid \<mapsto> cmd)"
  using handle_start_result [OF assms(1,2,3)] assms(4) by auto

section \<open>Claim C2: a session identifier in at most one of the two maps\<close>

text \<open>
  C2 says that no identifier is ever a key of both \<^verbatim>\<open>pendingSessions\<close> and
  \<^verbatim>\<open>ongoingSessions\<close>. \<^verbatim>\<open>prepareStream\<close> stores the pending session without looking at
  \<^verbatim>\<open>ongoingSessions\<close>: prepare, start, and prepare again under the same identifier leave
  it in both maps.
\<close>

theorem prepare_while_streaming_overlaps:
  "exclusive prepared_camera \<and> exclusive streaming_camera
   \<and> \<not> exclusive
         (fst (fst (prepareStream streaming_camera example_entropy ''192.168.1.20'' True
                      example_prepare)))"
proof -
  have p: "exclusive prepared_camera"
    by (simp add: exclusive_iff prepared_camera_def prepareStream_def prepare_media_def generate_ssrc_value
        example_camera_def new_camera_def Let_def split: option.splits)
  then have s: "exclusive streaming_camera"
    unfolding streaming_camera_def by (rule exclusive_after_stream_request)
  obtain cmd where c: "ongoingSessions streaming_camera ''s1'' = Some cmd"
    using streaming_camera_sessions by blast
  have "ongoingSessions (fst (fst (prepareStream streaming_camera example_entropy
          ''192.168.1.20'' True example_prepare))) ''s1'' = Some cmd"
    using c by (simp add: prepareStream_def prepare_media_def generate_ssrc_value example_prepare_def Let_def)
  moreover have "pendingSessions (fst (fst (prepareStream streaming_camera example_entropy
          ''192.168.1.20'' True example_prepare))) ''s1'' \<noteq> None"
    by (simp add: prepareStream_def prepare_media_def generate_ssrc_value example_prepare_def Let_def)
  ultimately show ?thesis
    using p s by (auto simp: exclusive_iff)
qed

text \<open>
  C2 as amended: when no identifier is in both maps, none is after any stream request
  (nor after the part of a start request that follows its lookup, on whatever camera it
  finds), and none is after a \<^verbatim>\<open>prepareStream\<close> whose identifier is not an ongoing session;
  \<^verbatim>\<open>prepareStream\<close> leaves a pending session under its identifier; a start request that
  returns leaves none under its identifier, whether or not it spawned a process; and a
  stop request leaves no ongoing session under its identifier.
\<close>

theorem session_maps_stay_exclusive:
  assumes "exclusive cam"
  shows "exclusive (fst (handleStreamRequest cam env request))
       \<and> exclusive (fst (resume_start cam lookup sid sessionInfo audio r))
       \<and> (prep_sessionID prep \<notin> dom (ongoingSessions cam)
            \<longrightarrow> exclusive (fst (fst (prepareStream cam e myIPAddress isV4 prep))))
       \<and> pendingSessions (fst (fst (prepareStream cam e myIPAddress isV4 prep)))
             (prep_sessionID prep) \<noteq> None
       \<and> (req_type request = ''start'' \<and> req_sessionID request = Some sid
              \<and> snd (snd (handleStreamRequest cam env request)) = Returned
            \<longrightarrow> pendingSessions (fst (handleStreamRequest cam env request)) sid = None)
       \<and> (req_type request = ''stop'' \<and> req_sessionID request = Some sid
            \<longrightarrow> ongoingSessions (fst (handleStreamRequest cam env request)) sid = None)"
proof (intro conjI impI)
  show "exclusive (fst (handleStreamRequest cam env request))"
    using assms by (rule exclusive_after_stream_request)
next
  show "exclusive (fst (resume_start cam lookup sid sessionInfo audio r))"
    using assms by (rule exclusive_after_resume_start)
next
  obtain cam' response e' where
    p: "prepareStream cam e myIPAddress isV4 prep
          = ((cam', [Callback (Succeeded (Prepared response))], Returned), e')"
    and q: "\<exists>sessionInfo. pendingSessions cam' (prep_sessionID prep) = Some sessionInfo"
    using prepareStream_returns [of cam e myIPAddress isV4 prep] by blast
  show "pendingSessions (fst (fst (prepareStream cam e myIPAddress isV4 prep)))
             (prep_sessionID prep) \<noteq> None"
    using p q by auto
next
  assume "prep_sessionID prep \<notin> dom (ongoingSessions cam)"
  then show "exclusive (fst (fst (prepareStream cam e myIPAddress isV4 prep)))"
    using assms
    by (auto simp: exclusive_iff dom_def prepareStream_def prepare_media_def generate_ssrc_value Let_def
          split: option.splits prod.splits if_splits)
next
  assume a: "req_type request = ''start'' \<and> req_sessionID request = Some sid
              \<and> snd (snd (handleStreamRequest cam env request)) = Returned"
  obtain cam' effs out where r: "handleStreamRequest cam env request = (cam', effs, out)"
    by (cases "handleStreamRequest cam env request") auto
  from handle_start_result [OF _ _ r, of sid] a r
  show "pendingSessions (fst (handleStreamRequest cam env request)) sid = None"
    by auto
next
  assume "req_type request = ''stop'' \<and> req_sessionID request = Some sid"
  then show "ongoingSessions (fst (handleStreamRequest cam env request)) sid = None"
    by (simp add: handleStreamRequest_def stop_stream_def)
qed

theorem session_maps_stay_exclusive_witness:
  "exclusive prepared_camera
   \<and> req_type example_start = ''start'' \<and> req_sessionID example_start = Some ''s1''
   \<and> snd (snd (handleStreamRequest prepared_camera online_env example_start)) = Returned
   \<and> pendingSessions prepared_camera ''s1'' \<noteq> None
   \<and> pendingSessions (fst (handleStreamRequest prepared_camera online_env example_start)) ''s1''
       = None
   \<and> exclusive (fst (handleStreamRequest prepared_camera online_env example_start))
   \<and> prep_sessionID example_prepare \<notin> dom (ongoingSessions example_camera)
   \<and> exclusive (fst (fst (prepareStream example_camera example_entropy ''192.168.1.20'' True
                             example_prepare)))
   \<and> req_type example_stop = ''stop'' \<and> req_sessionID example_stop = Some ''s1''
   \<and> ongoingSessions (fst (handleStreamRequest streaming_camera online_env example_stop)) ''s1''
       = None"
proof -
  have x0: "exclusive example_camera"
    by (simp add: exclusive_def example_camera_def new_camera_def)
  have f: "prep_sessionID example_prepare \<notin> dom (ongoingSessions example_camera)"
    by (simp add: example_camera_def new_camera_def)
  have xp: "exclusive prepared_camera"
    using session_maps_stay_exclusive [OF x0, where prep = example_prepare] f
    by (simp add: prepared_camera_def)
  have r: "snd (snd (handleStreamRequest prepared_camera online_env example_start)) = Returned"
    using example_start_spawns by auto
  have xs: "exclusive streaming_camera"
    using session_maps_stay_exclusive [OF xp] by (simp add: streaming_camera_def)
  note t = session_maps_stay_exclusive [OF xp, where request = example_start and env = online_env
      and sid = "''s1''"]
  note u = session_maps_stay_exclusive [OF xs, where request = example_stop and env = online_env
      and sid = "''s1''"]
  have ty: "req_type example_start = ''start'' \<and> req_sessionID example_start = Some ''s1''"
    by (simp add: example_start_def)
  have tz: "req_type example_stop = ''stop'' \<and> req_sessionID example_stop = Some ''s1''"
    by (simp add: example_stop_def)
  show ?thesis
    using xp f r t u ty tz prepared_session by (simp add: prepared_camera_def)
qed

section \<open>Claim C4: a transcoder that cannot be spawned\<close>

text \<open>
  C4 says that a failure to spawn never produces an ongoing session. The start request
  registers the process object under the identifier as soon as \<^verbatim>\<open>spawn\<close> has returned it;
  the failure arrives later as the \<^verbatim>\<open>'error'\<close> event, whose handler calls back with the
  error and leaves the registration in place.
\<close>

theorem spawn_failure_leaves_ongoing_session:
  "callbacks (snd (stream_event ''s1'' (ProcError SpawnFailed) (streaming_camera, False)))
     = [Failed SpawnFailed]
   \<and> ongoingSessions
         (fst (fst (stream_event ''s1'' (ProcError SpawnFailed) (streaming_camera, False)))) ''s1''
       \<noteq> None"
  using streaming_camera_sessions by (auto simp: on_error_def)

text \<open>
  C4 as amended: a start request that spawns calls nothing back itself, registers the
  process as the ongoing session of its identifier and deletes the pending one; when the
  spawn fails, the \<^verbatim>\<open>'error'\<close> handler reports the error through the callback and the
  ongoing session stays; a stop request for the identifier deletes it.
\<close>

theorem spawn_failure_reported_but_session_kept:
  assumes "req_type request = ''start''" and "req_sessionID request = Some sid"
    and "handleStreamRequest cam env request = (cam', effs, out)"
    and "Spawn cmd \<in> set effs"
  shows "out = Returned \<and> callbacks effs = []
       \<and> ongoingSessions cam' sid = Some cmd \<and> pendingSessions cam' sid = None
       \<and> stream_event sid (ProcError err) (cam', False)
           = ((cam', False),
              [LogError ''An error occurred while making stream request:'', Callback (Failed err)])
       \<and> ongoingSessions
             (fst (handleStreamRequest cam' env'
                     \<lparr> req_sessionID = Some sid, req_type = ''stop'',
                       req_video = None, req_audio = None \<rparr>)) sid = None"
  using start_that_spawns [OF assms]
  by (simp add: on_error_def handleStreamRequest_def stop_stream_def)

theorem spawn_failure_reported_but_session_kept_witness:
  "req_type example_start = ''start'' \<and> req_sessionID example_start = Some ''s1''
   \<and> (\<exists>cmd. Spawn cmd \<in> set (fst (snd (handleStreamRequest prepared_camera online_env
                                            example_start)))
          \<and> ongoingSessions streaming_camera ''s1'' = Some cmd)
   \<and> callbacks (fst (snd (handleStreamRequest prepared_camera online_env example_start))) = []
   \<and> callbacks (snd (stream_event ''s1'' (ProcError SpawnFailed) (streaming_camera, False)))
       = [Failed SpawnFailed]
   \<and> ongoingSessions (fst (handleStreamRequest streaming_camera online_env example_stop)) ''s1''
       = None"
proof -
  obtain cmd where
    c: "fst (snd (handleStreamRequest prepared_camera online_env example_start))
          = [DnsLookup ''media.simplisafe.com'', Spawn cmd]"
    using streaming_camera_sessions by blast
  have ty: "req_type example_start = ''start''" "req_sessionID example_start = Some ''s1''"
    by (simp_all add: example_start_def)
  have h: "handleStreamRequest prepared_camera online_env example_start
        = (streaming_camera, fst (snd (handleStreamRequest prepared_camera online_env example_start)),
           snd (snd (handleStreamRequest prepared_camera online_env example_start)))"
    by (simp add: streaming_camera_def)
  have m: "Spawn cmd \<in> set (fst (snd (handleStreamRequest prepared_camera online_env example_start)))"
    by (simp add: c)
  note t = spawn_failure_reported_but_session_kept [OF ty h m, where err = SpawnFailed
      and env' = online_env]
  have "callbacks (snd (stream_event ''s1'' (ProcError SpawnFailed) (streaming_camera, False)))
       = [Failed SpawnFailed]"
    using t by simp
  moreover have "ongoingSessions (fst (handleStreamRequest streaming_camera online_env
      example_stop)) ''s1'' = None"
    using t by (simp add: example_stop_def)
  ultimately show ?thesis
    using ty m t by auto
qed

section \<open>Facts about callbacks\<close>

lemma callbacks_append: "callbacks (xs @ ys) = callbacks xs @ callbacks ys"
  by (induction xs rule: callbacks.induct) auto

lemma snapshot_calls_back_once:
  "snd (snd (handleSnapshotRequest cam env request)) = Returned
   \<Longrightarrow> length (callbacks (fst (snd (handleSnapshotRequest cam env request)))) = 1"
  by (auto simp: handleSnapshotRequest_def snapshot_resolve_def snapshot_fetch_def Let_def
        callbacks_append split: if_splits sum.splits prod.splits)

lemma stream_events_Cons:
  "stream_events sid (ev # evs) st
     = (fst (stream_events sid evs (fst (stream_event sid ev st))),
        snd (stream_event sid ev st) @ snd (stream_events sid evs (fst (stream_event sid ev st))))"
  by (simp add: case_prod_beta)

lemma quiet_after_ready:
  "\<forall>err. ProcError err \<notin> set evs
   \<Longrightarrow> callbacks (snd (stream_events sid evs (cam, True))) = []
     \<and> fst (stream_events sid evs (cam, True)) = (cam, True)"
proof (induction evs)
  case Nil
  then show ?case by simp
next
  case (Cons ev evs)
  then show ?case
    by (cases ev) (auto simp: stream_events_Cons on_stderr_data_def on_close_def callbacks_append
        simp del: stream_events.simps split: option.splits)
qed

lemma first_line_calls_back_once:
  assumes "\<forall>err. ProcError err \<notin> set evs"
  shows "callbacks (snd (stream_events sid (StderrData d # evs) (cam, False))) = [Succeeded NoValue]"
  using quiet_after_ready [OF assms, of sid cam]
  by (simp add: stream_events_Cons on_stderr_data_def callbacks_append del: stream_events.simps)

lemma prepared_camera_fields:
  "serverIpAddress prepared_camera = None \<and> cameraOptions prepared_camera = None
   \<and> ongoingSessions prepared_camera = Map.empty"
  by (simp add: prepared_camera_def prepareStream_def prepare_media_def generate_ssrc_value example_camera_def
      new_camera_def Let_def split: option.splits)

text \<open>
  The \<^verbatim>\<open>'error'\<close> handler does not look at \<^verbatim>\<open>started\<close>: an error event after the first
  line of output calls the callback a second time.
\<close>

lemma error_after_first_line_calls_back_again:
  "callbacks (snd (stream_events sid [StderrData d, ProcError err] (cam, False)))
     = [Succeeded NoValue, Failed err]"
  by (simp add: on_stderr_data_def on_error_def)

text \<open>
  Nor does it set anything that the \<^verbatim>\<open>'close'\<close> handler looks at: an error event followed
  by a close with a code other than 0 and 255, before any output, calls back twice.
\<close>

lemma error_then_close_calls_back_twice:
  "callbacks (snd (stream_events sid [ProcError err, ProcClose (Some 1)] (cam, False)))
     = [Failed err, Failed (JsError ''Error: FFmpeg exited with code 1'')]"
  by (simp add: on_error_def on_close_def str_of_int_def str_of_nat.simps digit_char_def)

section \<open>Claim C1: one callback per request\<close>

text \<open>
  C1 says that every accessory-facing operation calls its callback exactly once per
  request. A start request that is not rate limited, for an identifier with no pending
  session, is ignored: nothing is spawned and the callback is never called.
\<close>

theorem start_without_pending_session_calls_nothing:
  "req_type example_start = ''start'' \<and> req_sessionID example_start = Some ''s1''
   \<and> \<not> rate_limited (st_simplisafe online_env) (st_now online_env)
   \<and> pendingSessions example_camera ''s1'' = None
   \<and> handleStreamRequest example_camera online_env example_start = (example_camera, [], Returned)"
  by (simp add: handleStreamRequest_def example_start_def online_env_def rate_limited_def
      example_camera_def new_camera_def)

text \<open>
  C1 as amended: \<^verbatim>\<open>identify\<close>, \<^verbatim>\<open>getState\<close> and \<^verbatim>\<open>prepareStream\<close> call back exactly once;
  so does a snapshot request that returns, and a stop request that carries a session
  identifier. Of the start requests that carry one: a rate-limited one calls back exactly
  once, with the rate-limit error, whether or not a session is pending; one that is not
  rate limited calls nothing when no session is pending under the identifier; one that is
  not rate limited, has a session pending and carries video and audio calls back exactly
  once, with the lookup's error, when the lookup fails with no address cached; and one
  that spawns the transcoder calls nothing itself. Of a spawned transcoder the first line
  of stderr output calls back once with success, and no later output line or exit calls
  back again.
\<close>

theorem callbacks_per_request:
  "callbacks (fst (snd (identify cam))) = [Succeeded NoValue]
   \<and> length (callbacks (fst (snd (getState cam ss now v)))) = 1
   \<and> length (callbacks (fst (snd (fst (prepareStream cam e myIPAddress isV4 prep))))) = 1
   \<and> (snd (snd (handleSnapshotRequest cam senv snap)) = Returned
        \<longrightarrow> length (callbacks (fst (snd (handleSnapshotRequest cam senv snap)))) = 1)
   \<and> (req_type request = ''stop'' \<and> req_sessionID request = Some sid
        \<longrightarrow> callbacks (fst (snd (handleStreamRequest cam env request))) = [Succeeded NoValue])
   \<and> (req_type request = ''start'' \<and> req_sessionID request = Some sid
          \<and> rate_limited (st_simplisafe env) (st_now env)
        \<longrightarrow> callbacks (fst (snd (handleStreamRequest cam env request)))
            = [Failed (JsError ''Camera stream request blocked (rate limited)'')])
   \<and> (req_type request = ''start'' \<and> req_sessionID request = Some sid
          \<and> \<not> rate_limited (st_simplisafe env) (st_now env) \<and> pendingSessions cam sid = None
        \<longrightarrow> fst (snd (handleStreamRequest cam env request)) = [])
   \<and> (req_type request = ''start'' \<and> req_sessionID request = Some sid
          \<and> \<not> rate_limited (st_simplisafe env) (st_now env) \<and> pendingSessions cam sid \<noteq> None
          \<and> req_video request \<noteq> None \<and> req_audio request \<noteq> None
          \<and> st_dnsLookup env = Inl err \<and> \<not> truthy_string (serverIpAddress cam)
        \<longrightarrow> callbacks (fst (snd (handleStreamRequest cam env request))) = [Failed err])
   \<and> (req_type request = ''start'' \<and> req_sessionID request = Some sid
          \<and> Spawn cmd \<in> set (fst (snd (handleStreamRequest cam env request)))
        \<longrightarrow> callbacks (fst (snd (handleStreamRequest cam env request))) = [])
   \<and> ((\<forall>perr. ProcError perr \<notin> set evs)
        \<longrightarrow> callbacks (snd (stream_events sid (StderrData d # evs) (cam, False)))
            = [Succeeded NoValue])"
proof (intro conjI impI)
  show "callbacks (fst (snd (identify cam))) = [Succeeded NoValue]"
    by (simp add: identify_def)
next
  show "length (callbacks (fst (snd (getState cam ss now v)))) = 1"
    by (simp add: getState_def)
next
  show "length (callbacks (fst (snd (fst (prepareStream cam e myIPAddress isV4 prep))))) = 1"
    using prepareStream_returns [of cam e myIPAddress isV4 prep] by auto
next
  assume "snd (snd (handleSnapshotRequest cam senv snap)) = Returned"
  then show "length (callbacks (fst (snd (handleSnapshotRequest cam senv snap)))) = 1"
    by (rule snapshot_calls_back_once)
next
  assume "req_type request = ''stop'' \<and> req_sessionID request = Some sid"
  then show "callbacks (fst (snd (handleStreamRequest cam env request))) = [Succeeded NoValue]"
    by (auto simp: handleStreamRequest_def stop_stream_def callbacks_append split: option.splits)
next
  assume "req_type request = ''start'' \<and> req_sessionID request = Some sid
          \<and> rate_limited (st_simplisafe env) (st_now env)"
  then show "callbacks (fst (snd (handleStreamRequest cam env request)))
            = [Failed (JsError ''Camera stream request blocked (rate limited)'')]"
    by (simp add: handleStreamRequest_def)
next
  assume "req_type request = ''start'' \<and> req_sessionID request = Some sid
          \<and> \<not> rate_limited (st_simplisafe env) (st_now env) \<and> pendingSessions cam sid = None"
  then show "fst (snd (handleStreamRequest cam env request)) = []"
    by (simp add: handleStreamRequest_def)
next
  assume "req_type request = ''start'' \<and> req_sessionID request = Some sid
          \<and> \<not> rate_limited (st_simplisafe env) (st_now env) \<and> pendingSessions cam sid \<noteq> None
          \<and> req_video request \<noteq> None \<and> req_audio request \<noteq> None
          \<and> st_dnsLookup env = Inl err \<and> \<not> truthy_string (serverIpAddress cam)"
  then show "callbacks (fst (snd (handleStreamRequest cam env request))) = [Failed err]"
    by (auto simp: handleStreamRequest_def start_stream_def resume_start_def)
next
  assume a: "req_type request = ''start'' \<and> req_sessionID request = Some sid
          \<and> Spawn cmd \<in> set (fst (snd (handleStreamRequest cam env request)))"
  have "handleStreamRequest cam env request
        = (fst (handleStreamRequest cam env request), fst (snd (handleStreamRequest cam env request)),
           snd (snd (handleStreamRequest cam env request)))"
    by simp
  from start_that_spawns [OF _ _ this, of sid cmd] a
  show "callbacks (fst (snd (handleStreamRequest cam env request))) = []"
    by simp
next
  assume "\<forall>perr. ProcError perr \<notin> set evs"
  then show "callbacks (snd (stream_events sid (StderrData d # evs) (cam, False)))
            = [Succeeded NoValue]"
    by (rule first_line_calls_back_once)
qed

theorem callbacks_per_request_witness:
  "snd (snd (handleSnapshotRequest example_camera home_snapshot_env example_snapshot)) = Returned
   \<and> callbacks (fst (snd (handleSnapshotRequest example_camera home_snapshot_env example_snapshot)))
       = [Failed (JsError ''Privacy shutter closed'')]
   \<and> length (callbacks (fst (snd (handleSnapshotRequest example_camera home_snapshot_env
         example_snapshot)))) = 1
   \<and> callbacks (fst (snd (handleStreamRequest streaming_camera online_env example_stop)))
       = [Succeeded NoValue]
   \<and> rate_limited (st_simplisafe blocked_env) (st_now blocked_env)
   \<and> callbacks (fst (snd (handleStreamRequest prepared_camera blocked_env example_start)))
       = [Failed (JsError ''Camera stream request blocked (rate limited)'')]
   \<and> pendingSessions example_camera ''s1'' = None
   \<and> callbacks (fst (snd (handleStreamRequest example_camera blocked_env example_start)))
       = [Failed (JsError ''Camera stream request blocked (rate limited)'')]
   \<and> fst (snd (handleStreamRequest example_camera online_env example_start)) = []
   \<and> st_dnsLookup offline_env = Inl LookupFailed
   \<and> \<not> truthy_string (serverIpAddress prepared_camera)
   \<and> callbacks (fst (snd (handleStreamRequest prepared_camera offline_env example_start)))
       = [Failed LookupFailed]
   \<and> (\<exists>cmd. Spawn cmd \<in> set (fst (snd (handleStreamRequest prepared_camera online_env
                                            example_start))))
   \<and> callbacks (fst (snd (handleStreamRequest prepared_camera online_env example_start))) = []
   \<and> callbacks (snd (stream_events ''s1''
                        [StderrData ''frame= 1'', StderrData ''frame= 2'', ProcClose (Some 1)]
                        (example_camera, False)))
       = [Succeeded NoValue]"
proof -
  have sn: "handleSnapshotRequest example_camera home_snapshot_env example_snapshot
      = (example_camera, [GetAlarmState, Callback (Failed (JsError ''Privacy shutter closed''))],
         Returned)"
    by (simp add: handleSnapshotRequest_def home_snapshot_env_def rate_limited_def
        example_camera_def new_camera_def example_details_def shutter_closed_def)
  have ty: "req_type example_start = ''start'' \<and> req_sessionID example_start = Some ''s1''
      \<and> req_video example_start \<noteq> None \<and> req_audio example_start \<noteq> None"
    by (simp add: example_start_def)
  have tz: "req_type example_stop = ''stop'' \<and> req_sessionID example_stop = Some ''s1''"
    by (simp add: example_stop_def)
  have bl: "rate_limited (st_simplisafe blocked_env) (st_now blocked_env)"
    by (simp add: blocked_env_def rate_limited_def)
  have nb: "\<not> rate_limited (st_simplisafe online_env) (st_now online_env)
      \<and> \<not> rate_limited (st_simplisafe offline_env) (st_now offline_env)"
    by (simp add: online_env_def offline_env_def rate_limited_def)
  have np: "pendingSessions example_camera ''s1'' = None"
    by (simp add: example_camera_def new_camera_def)
  have pp: "pendingSessions prepared_camera ''s1'' \<noteq> None"
    by (simp add: prepared_session)
  have dn: "st_dnsLookup offline_env = Inl LookupFailed"
    by (simp add: offline_env_def)
  have nc: "\<not> truthy_string (serverIpAddress prepared_camera)"
    by (simp add: prepared_camera_fields truthy_string_def)
  obtain cmd where
    sp: "Spawn cmd \<in> set (fst (snd (handleStreamRequest prepared_camera online_env example_start)))"
    using streaming_camera_sessions by auto
  have ev: "\<forall>perr. ProcError perr \<notin> set [StderrData ''frame= 2'', ProcClose (Some 1)]"
    by simp
  have 1: "callbacks (fst (snd (handleStreamRequest streaming_camera online_env example_stop)))
       = [Succeeded NoValue]"
    using callbacks_per_request [where request = example_stop and sid = "''s1''"
        and cam = streaming_camera and env = online_env] tz
    by blast
  have 2: "callbacks (fst (snd (handleStreamRequest prepared_camera blocked_env example_start)))
       = [Failed (JsError ''Camera stream request blocked (rate limited)'')]"
    using callbacks_per_request [where request = example_start and sid = "''s1''"
        and cam = prepared_camera and env = blocked_env] ty bl
    by blast
  have 7: "callbacks (fst (snd (handleStreamRequest example_camera blocked_env example_start)))
       = [Failed (JsError ''Camera stream request blocked (rate limited)'')]"
    using callbacks_per_request [where request = example_start and sid = "''s1''"
        and cam = example_camera and env = blocked_env] ty bl
    by blast
  have 3: "fst (snd (handleStreamRequest example_camera online_env example_start)) = []"
    using callbacks_per_request [where request = example_start and sid = "''s1''"
        and cam = example_camera and env = online_env] ty nb np
    by blast
  have 4: "callbacks (fst (snd (handleStreamRequest prepared_camera offline_env example_start)))
       = [Failed LookupFailed]"
    using callbacks_per_request [where request = example_start and sid = "''s1''"
        and cam = prepared_camera and env = offline_env and err = LookupFailed] ty nb pp dn nc
    by blast
  have 5: "callbacks (fst (snd (handleStreamRequest prepared_camera online_env example_start))) = []"
    using callbacks_per_request [where request = example_start and sid = "''s1''"
        and cam = prepared_camera and env = online_env and cmd = cmd] ty sp
    by blast
  have 6: "callbacks (snd (stream_events ''s1''
                        [StderrData ''frame= 1'', StderrData ''frame= 2'', ProcClose (Some 1)]
                        (example_camera, False)))
       = [Succeeded NoValue]"
    using callbacks_per_request [where sid = "''s1''" and cam = example_camera
        and d = "''frame= 1''" and evs = "[StderrData ''frame= 2'', ProcClose (Some 1)]"] ev
    by blast
  have 0: "length (callbacks (fst (snd (handleSnapshotRequest example_camera home_snapshot_env
      example_snapshot)))) = 1"
    using callbacks_per_request [where cam = example_camera and senv = home_snapshot_env
        and snap = example_snapshot] sn
    by simp
  show ?thesis
    using sn bl np dn nc sp 0 1 2 3 4 5 6 7 by auto
qed

section \<open>Claim C5: resolving the media host\<close>

lemma str_of_int_640: "str_of_int 640 = ''640''"
  by (simp add: str_of_int_def str_of_nat.simps digit_char_def)

text \<open>
  The lookup of a start request that goes on to spawn, and the update of the cache in a
  snapshot request, do what C5 says.
\<close>

lemma resolution_where_it_holds:
  "snapshot_resolve cam (Inr ip)
     = (cam \<lparr> serverIpAddress := Some ip \<rparr>, [DnsLookup ''media.simplisafe.com''])
   \<and> fst (snapshot_resolve cam (Inl err)) = cam
   \<and> (req_type request = ''start'' \<and> req_sessionID request = Some sid
          \<and> Spawn cmd \<in> set (fst (snd (handleStreamRequest cam env request)))
          \<and> st_dnsLookup env = Inr ip
        \<longrightarrow> serverIpAddress (fst (handleStreamRequest cam env request)) = Some ip)
   \<and> (req_type request = ''start'' \<and> req_sessionID request = Some sid
          \<and> Spawn cmd \<in> set (fst (snd (handleStreamRequest cam env request)))
          \<and> st_dnsLookup env = Inl err
        \<longrightarrow> truthy_string (serverIpAddress cam)
            \<and> serverIpAddress (fst (handleStreamRequest cam env request)) = serverIpAddress cam)"
proof (intro conjI impI)
  show "snapshot_resolve cam (Inr ip)
     = (cam \<lparr> serverIpAddress := Some ip \<rparr>, [DnsLookup ''media.simplisafe.com''])"
    by (simp add: snapshot_resolve_def)
next
  show "fst (snapshot_resolve cam (Inl err)) = cam"
    by (simp add: snapshot_resolve_def)
next
  assume "req_type request = ''start'' \<and> req_sessionID request = Some sid
          \<and> Spawn cmd \<in> set (fst (snd (handleStreamRequest cam env request)))
          \<and> st_dnsLookup env = Inr ip"
  then show "serverIpAddress (fst (handleStreamRequest cam env request)) = Some ip"
    by (auto simp: handleStreamRequest_def start_stream_def resume_start_def spawn_stream_def Let_def
          split: if_splits option.splits sum.splits)
next
  assume a: "req_type request = ''start'' \<and> req_sessionID request = Some sid
          \<and> Spawn cmd \<in> set (fst (snd (handleStreamRequest cam env request)))
          \<and> st_dnsLookup env = Inl err"
  then show "truthy_string (serverIpAddress cam)"
    by (auto simp: handleStreamRequest_def start_stream_def resume_start_def spawn_stream_def Let_def
          split: if_splits option.splits sum.splits)
  from a show "serverIpAddress (fst (handleStreamRequest cam env request)) = serverIpAddress cam"
    by (auto simp: handleStreamRequest_def start_stream_def resume_start_def spawn_stream_def Let_def
          split: if_splits option.splits sum.splits)
qed

text \<open>
  C5 says that a failed lookup with no cached address fails the request instead of going
  on without an address. The start request does that (its callback gets the error and nothing is spawned); the
  snapshot request only logs the failure and then fetches from a URL whose host is the
  text \<^verbatim>\<open>undefined\<close>.
\<close>

theorem snapshot_proceeds_without_address:
  "serverIpAddress example_camera = None
   \<and> sn_dnsLookup offline_snapshot_env = Inl LookupFailed
   \<and> handleSnapshotRequest example_camera offline_snapshot_env example_snapshot
       = (example_camera,
          [GetAlarmState, DnsLookup ''media.simplisafe.com'',
           LogError ''Could not resolve hostname for media.simplisafe.com'',
           JpegExtract ''https://undefined/v1/a1b2c3/mjpg?x=640&fr=1'',
           LogError ''An error occurred while making snapshot request:'',
           Callback (Failed RequestFailed)],
          Returned)"
  by (simp add: handleSnapshotRequest_def offline_snapshot_env_def rate_limited_def
      example_camera_def new_camera_def example_details_def shutter_closed_def
      snapshot_resolve_def truthy_string_def snapshot_fetch_def snapshot_url_def tpl_string_def
      example_snapshot_def str_of_int_640)

section \<open>Claim C7: the privacy gate of a snapshot request\<close>

text \<open>
  C7 says that every snapshot request of a camera with a shutter, outside a motion event
  and with the shutter flag of the current alarm state not \<^verbatim>\<open>open\<close>, fails with the
  privacy error. The rate-limit check comes first: a request made while the cloud client
  is rate limited fails with the rate-limit error and never reaches the gate.
\<close>

theorem rate_limit_precedes_privacy_gate:
  "model (cameraDetails example_camera) = ''SS001'' \<and> \<not> motionIsTriggered example_camera
   \<and> sn_alarmState blocked_snapshot_env = Inr ''HOME''
   \<and> shutterHome (cameraSettings (cameraDetails example_camera)) \<noteq> Some ''open''
   \<and> handleSnapshotRequest example_camera blocked_snapshot_env example_snapshot
       = (example_camera,
          [Callback (Failed (JsError ''Camera snapshot request blocked (rate limited)''))],
          Returned)"
  by (simp add: handleSnapshotRequest_def blocked_snapshot_env_def rate_limited_def
      example_camera_def new_camera_def example_details_def)

text \<open>
  C7 as amended: a camera whose model is not SS001 never has its alarm state queried,
  and neither has any camera during a motion event, when a request that is not rate
  limited goes on to the fetch; a request that is not rate limited, for an SS001 camera
  outside a motion event whose shutter flag for the current alarm state (OFF, HOME or
  AWAY) is not \<^verbatim>\<open>open\<close>, queries the alarm state and fails with the privacy error, with
  no lookup and no fetch; a rate-limited request fails with the rate-limit error and does
  nothing else.
\<close>

theorem snapshot_privacy_gate:
  "(model (cameraDetails cam) \<noteq> ''SS001''
      \<longrightarrow> GetAlarmState \<notin> set (fst (snd (handleSnapshotRequest cam env request))))
   \<and> (motionIsTriggered cam
      \<longrightarrow> GetAlarmState \<notin> set (fst (snd (handleSnapshotRequest cam env request))))
   \<and> (motionIsTriggered cam \<and> \<not> rate_limited (sn_simplisafe env) (sn_now env)
      \<longrightarrow> (\<exists>url. JpegExtract url \<in> set (fst (snd (handleSnapshotRequest cam env request)))))
   \<and> (\<not> rate_limited (sn_simplisafe env) (sn_now env)
        \<and> model (cameraDetails cam) = ''SS001'' \<and> \<not> motionIsTriggered cam
        \<and> sn_alarmState env = Inr alarmState
        \<and> (alarmState = ''OFF'' \<and> shutterOff (cameraSettings (cameraDetails cam)) \<noteq> Some ''open''
           \<or> alarmState = ''HOME'' \<and> shutterHome (cameraSettings (cameraDetails cam)) \<noteq> Some ''open''
           \<or> alarmState = ''AWAY'' \<and> shutterAway (cameraSettings (cameraDetails cam)) \<noteq> Some ''open'')
      \<longrightarrow> handleSnapshotRequest cam env request
          = (cam, [GetAlarmState, Callback (Failed (JsError ''Privacy shutter closed''))], Returned))
   \<and> (rate_limited (sn_simplisafe env) (sn_now env)
      \<longrightarrow> handleSnapshotRequest cam env request
          = (cam, [Callback (Failed (JsError ''Camera snapshot request blocked (rate limited)''))],
             Returned))"
proof (intro conjI impI)
  assume "model (cameraDetails cam) \<noteq> ''SS001''"
  then show "GetAlarmState \<notin> set (fst (snd (handleSnapshotRequest cam env request)))"
    by (auto simp: handleSnapshotRequest_def snapshot_resolve_def snapshot_fetch_def Let_def
          split: sum.splits prod.splits if_splits)
next
  assume m: "motionIsTriggered cam"
  then show "GetAlarmState \<notin> set (fst (snd (handleSnapshotRequest cam env request)))"
    by (auto simp: handleSnapshotRequest_def snapshot_resolve_def snapshot_fetch_def Let_def
          split: sum.splits prod.splits if_splits)
next
  assume "motionIsTriggered cam \<and> \<not> rate_limited (sn_simplisafe env) (sn_now env)"
  then show "\<exists>url. JpegExtract url \<in> set (fst (snd (handleSnapshotRequest cam env request)))"
    by (auto simp: handleSnapshotRequest_def snapshot_resolve_def snapshot_fetch_def Let_def
          split: sum.splits prod.splits if_splits)
next
  assume "\<not> rate_limited (sn_simplisafe env) (sn_now env)
        \<and> model (cameraDetails cam) = ''SS001'' \<and> \<not> motionIsTriggered cam
        \<and> sn_alarmState env = Inr alarmState
        \<and> (alarmState = ''OFF'' \<and> shutterOff (cameraSettings (cameraDetails cam)) \<noteq> Some ''open''
           \<or> alarmState = ''HOME'' \<and> shutterHome (cameraSettings (cameraDetails cam)) \<noteq> Some ''open''
           \<or> alarmState = ''AWAY'' \<and> shutterAway (cameraSettings (cameraDetails cam)) \<noteq> Some ''open'')"
  then show "handleSnapshotRequest cam env request
          = (cam, [GetAlarmState, Callback (Failed (JsError ''Privacy shutter closed''))], Returned)"
    by (auto simp: handleSnapshotRequest_def shutter_closed_def)
next
  assume "rate_limited (sn_simplisafe env) (sn_now env)"
  then show "handleSnapshotRequest cam env request
          = (cam, [Callback (Failed (JsError ''Camera snapshot request blocked (rate limited)''))],
             Returned)"
    by (simp add: handleSnapshotRequest_def)
qed

theorem snapshot_privacy_gate_witness:
  "\<not> rate_limited (sn_simplisafe home_snapshot_env) (sn_now home_snapshot_env)
   \<and> model (cameraDetails example_camera) = ''SS001'' \<and> \<not> motionIsTriggered example_camera
   \<and> sn_alarmState home_snapshot_env = Inr ''HOME''
   \<and> shutterHome (cameraSettings (cameraDetails example_camera)) \<noteq> Some ''open''
   \<and> handleSnapshotRequest example_camera home_snapshot_env example_snapshot
       = (example_camera, [GetAlarmState, Callback (Failed (JsError ''Privacy shutter closed''))],
          Returned)
   \<and> motionIsTriggered (example_camera \<lparr> motionIsTriggered := True \<rparr>)
   \<and> GetAlarmState \<notin> set (fst (snd (handleSnapshotRequest
           (example_camera \<lparr> motionIsTriggered := True \<rparr>) home_snapshot_env example_snapshot)))
   \<and> (\<exists>url. JpegExtract url \<in> set (fst (snd (handleSnapshotRequest
           (example_camera \<lparr> motionIsTriggered := True \<rparr>) home_snapshot_env example_snapshot))))
   \<and> model (cameraDetails (example_camera \<lparr> cameraDetails := example_details \<lparr> model := ''SS002'' \<rparr> \<rparr>))
       \<noteq> ''SS001''
   \<and> GetAlarmState \<notin> set (fst (snd (handleSnapshotRequest
           (example_camera \<lparr> cameraDetails := example_details \<lparr> model := ''SS002'' \<rparr> \<rparr>)
           home_snapshot_env example_snapshot)))
   \<and> rate_limited (sn_simplisafe blocked_snapshot_env) (sn_now blocked_snapshot_env)
   \<and> callbacks (fst (snd (handleSnapshotRequest example_camera blocked_snapshot_env
                              example_snapshot)))
       = [Failed (JsError ''Camera snapshot request blocked (rate limited)'')]"
proof -
  have nb: "\<not> rate_limited (sn_simplisafe home_snapshot_env) (sn_now home_snapshot_env)"
    by (simp add: home_snapshot_env_def rate_limited_def)
  have bl: "rate_limited (sn_simplisafe blocked_snapshot_env) (sn_now blocked_snapshot_env)"
    by (simp add: blocked_snapshot_env_def rate_limited_def)
  have cam: "model (cameraDetails example_camera) = ''SS001'' \<and> \<not> motionIsTriggered example_camera
      \<and> shutterHome (cameraSettings (cameraDetails example_camera)) \<noteq> Some ''open''"
    by (simp add: example_camera_def new_camera_def example_details_def)
  have al: "sn_alarmState home_snapshot_env = Inr ''HOME''"
    by (simp add: home_snapshot_env_def)
  have mo: "motionIsTriggered (example_camera \<lparr> motionIsTriggered := True \<rparr>)"
    by simp
  have ot: "model (cameraDetails (example_camera \<lparr> cameraDetails := example_details \<lparr> model := ''SS002'' \<rparr> \<rparr>))
       \<noteq> ''SS001''"
    by simp
  have 1: "handleSnapshotRequest example_camera home_snapshot_env example_snapshot
       = (example_camera, [GetAlarmState, Callback (Failed (JsError ''Privacy shutter closed''))],
          Returned)"
    using snapshot_privacy_gate [where cam = example_camera and env = home_snapshot_env
        and alarmState = "''HOME''" and request = example_snapshot] nb cam al
    by blast
  have 2: "GetAlarmState \<notin> set (fst (snd (handleSnapshotRequest
           (example_camera \<lparr> motionIsTriggered := True \<rparr>) home_snapshot_env example_snapshot)))
      \<and> (\<exists>url. JpegExtract url \<in> set (fst (snd (handleSnapshotRequest
           (example_camera \<lparr> motionIsTriggered := True \<rparr>) home_snapshot_env example_snapshot))))"
    using snapshot_privacy_gate [where cam = "example_camera \<lparr> motionIsTriggered := True \<rparr>"
        and env = home_snapshot_env and request = example_snapshot] nb mo
    by blast
  have 3: "GetAlarmState \<notin> set (fst (snd (handleSnapshotRequest
           (example_camera \<lparr> cameraDetails := example_details \<lparr> model := ''SS002'' \<rparr> \<rparr>)
           home_snapshot_env example_snapshot)))"
    using snapshot_privacy_gate [where cam = "example_camera \<lparr> cameraDetails := example_details \<lparr> model := ''SS002'' \<rparr> \<rparr>"
        and env = home_snapshot_env and request = example_snapshot] ot
    by blast
  have 4: "handleSnapshotRequest example_camera blocked_snapshot_env example_snapshot
       = (example_camera, [Callback (Failed (JsError ''Camera snapshot request blocked (rate limited)''))],
             Returned)"
    using snapshot_privacy_gate [where cam = example_camera and env = blocked_snapshot_env
        and request = example_snapshot] bl
    by blast
  show ?thesis
    using nb bl cam al mo ot 1 2 3 by (simp add: 4)
qed

end
